theory Spec2Isabelle
  imports Main "HOL-Library.Char_ord" "HOL-Library.List_Lexorder" "HOL-Library.Sublist"
begin

section \<open>Go run-time and library pieces the data source calls\<close>

text \<open>
  The file under verification is
  \<^verbatim>\<open>internal/provider/data_source_docker_registry_image.go\<close>.
  A Go \<^verbatim>\<open>string\<close> is a byte sequence, modelled as \<^typ>\<open>string\<close>.
  A Go call either returns or panics; a panic unwinds through every caller in this
  file (none of them recovers).
\<close>

datatype 'a outcome = Panics | Returns 'a

text \<open>Indexing a slice, \<^verbatim>\<open>xs[i]\<close>: the run time checks the bound.\<close>

definition index :: "'a list \<Rightarrow> nat \<Rightarrow> 'a outcome" where
  "index xs i = (if i < length xs then Returns (xs ! i) else Panics)"

subsection \<open>Package strings\<close>

text \<open>
  \<^verbatim>\<open>strings.SplitN(s, sep, 2)\<close> and \<^verbatim>\<open>strings.Split(s, sep)\<close>;
  at each call site of the file the separator is a one-byte string, so it is a
  \<^typ>\<open>char\<close> here.
\<close>

definition SplitN2 :: "string \<Rightarrow> char \<Rightarrow> string list" where
  "SplitN2 s sep =
     (if sep \<in> set s
      then [takeWhile (\<lambda>c. c \<noteq> sep) s, tl (dropWhile (\<lambda>c. c \<noteq> sep) s)]
      else [s])"

fun Split :: "string \<Rightarrow> char \<Rightarrow> string list" where
  "Split [] sep = [[]]"
| "Split (c # cs) sep =
     (if c = sep then [] # Split cs sep
      else (case Split cs sep of
              p # ps \<Rightarrow> (c # p) # ps
            | [] \<Rightarrow> [[c]]))"

text \<open>\<^verbatim>\<open>strings.Trim(s, cutset)\<close>: strips leading and trailing bytes of the cutset.\<close>

definition Trim :: "string \<Rightarrow> string \<Rightarrow> string" where
  "Trim s cutset =
     rev (dropWhile (\<lambda>c. c \<in> set cutset) (rev (dropWhile (\<lambda>c. c \<in> set cutset) s)))"

text \<open>\<^verbatim>\<open>strings.Contains(s, "/")\<close> for a one-byte substring.\<close>

definition Contains :: "string \<Rightarrow> char \<Rightarrow> bool" where
  "Contains s c = (c \<in> set s)"

text \<open>\<^verbatim>\<open>strings.HasPrefix(s, p)\<close>.\<close>

definition HasPrefix :: "string \<Rightarrow> string \<Rightarrow> bool" where
  "HasPrefix s p = (take (length p) s = p)"

text \<open>
  \<^verbatim>\<open>strings.Replace(s, old, new, 1)\<close>: the first occurrence of \<open>old\<close> in
  \<open>s\<close>, wherever it stands, is replaced; with no occurrence \<open>s\<close> is returned.
\<close>

fun Replace1 :: "string \<Rightarrow> string \<Rightarrow> string \<Rightarrow> string" where
  "Replace1 [] old new = (if old = [] then new else [])"
| "Replace1 (c # cs) old new =
     (if HasPrefix (c # cs) old then new @ drop (length old) (c # cs)
      else c # Replace1 cs old new)"

subsection \<open>Package fmt: errors\<close>

text \<open>
  An error built by \<^verbatim>\<open>fmt.Errorf(format, operands...)\<close> is kept as its format string
  and its operands; rendering it is the business of package fmt. \<open>LibError\<close> is an
  error made by the standard library (transport, URL parsing, body read, JSON syntax),
  with its message; \<open>UnmarshalTypeError\<close> is the one of encoding/json, with the kind
  of JSON value that did not fit.
\<close>

datatype error = LibError string | UnmarshalTypeError string | Errorf string "operand list"
and operand = OStr string | OErr error

text \<open>\<^verbatim>\<open>diag.Diagnostics\<close>: nil, or the one error \<^verbatim>\<open>diag.Errorf\<close> makes.\<close>

datatype Diagnostics = Diag_nil | Diag_Errorf string "operand list"

subsection \<open>Package encoding/base64\<close>

definition encodeStd :: string where
  "encodeStd = ''ABCDEFGHIJKLMNOPQRSTUVWXYZabcdefghijklmnopqrstuvwxyz0123456789+/''"

fun b64enc :: "nat list \<Rightarrow> string" where
  "b64enc [] = []"
| "b64enc [a] =
     [encodeStd ! (a div 4), encodeStd ! ((a mod 4) * 16), CHR ''='', CHR ''='']"
| "b64enc [a, b] =
     [encodeStd ! (a div 4), encodeStd ! ((a mod 4) * 16 + b div 16),
      encodeStd ! ((b mod 16) * 4), CHR ''='']"
| "b64enc (a # b # c # rest) =
     [encodeStd ! (a div 4), encodeStd ! ((a mod 4) * 16 + b div 16),
      encodeStd ! ((b mod 16) * 4 + c div 64), encodeStd ! (c mod 64)] @ b64enc rest"

text \<open>\<^verbatim>\<open>b64.StdEncoding.EncodeToString([]byte(s))\<close>.\<close>

definition EncodeToString :: "string \<Rightarrow> string" where
  "EncodeToString src = b64enc (map of_char src)"

subsection \<open>Package net/url\<close>

definition upperhex :: string where
  "upperhex = ''0123456789ABCDEF''"

text \<open>
  \<^verbatim>\<open>shouldEscape(c, encodeQueryComponent)\<close>: everything is escaped but the
  unreserved bytes.
\<close>

definition shouldEscape :: "char \<Rightarrow> bool" where
  "shouldEscape c =
     (c \<notin> set ''ABCDEFGHIJKLMNOPQRSTUVWXYZabcdefghijklmnopqrstuvwxyz0123456789-_.~'')"

fun QueryEscape :: "string \<Rightarrow> string" where
  "QueryEscape [] = []"
| "QueryEscape (c # cs) =
     (if c = CHR '' '' then ''+''
      else if shouldEscape c
        then [CHR ''%'', upperhex ! ((of_char c :: nat) div 16), upperhex ! ((of_char c :: nat) mod 16)]
        else [c]) @ QueryEscape cs"

text \<open>
  \<^verbatim>\<open>url.Values\<close> is a \<^verbatim>\<open>map[string][]string\<close>; it is kept as an association
  list with one entry per key, since \<^verbatim>\<open>Encode\<close> walks the keys in sorted order.
\<close>

type_synonym Values = "(string \<times> string list) list"

fun Values_Set :: "Values \<Rightarrow> string \<Rightarrow> string \<Rightarrow> Values" where
  "Values_Set [] key v = [(key, [v])]"
| "Values_Set ((k, vs) # rest) key v =
     (if k = key then (k, [v]) # rest else (k, vs) # Values_Set rest key v)"

fun Join :: "string list \<Rightarrow> string \<Rightarrow> string" where
  "Join [] sep = []"
| "Join [x] sep = x"
| "Join (x # y # ys) sep = x @ sep @ Join (y # ys) sep"

text \<open>\<^verbatim>\<open>Values.Encode\<close>: \<open>key=value\<close> pairs joined by \<open>&\<close>, sorted by key.\<close>

definition Values_Encode :: "Values \<Rightarrow> string" where
  "Values_Encode v =
     Join (concat (map (\<lambda>(k, vs). map (\<lambda>x. QueryEscape k @ ''='' @ QueryEscape x) vs)
                       (sort_key fst v))) ''&''"

subsection \<open>Package net/http\<close>

text \<open>
  \<^verbatim>\<open>http.Header\<close> is a \<^verbatim>\<open>map[string][]string\<close> keyed by canonical header names.
\<close>

type_synonym Header = "string \<rightharpoonup> string list"

definition validHeaderFieldByte :: "char \<Rightarrow> bool" where
  "validHeaderFieldByte c =
     (c \<in> set (''ABCDEFGHIJKLMNOPQRSTUVWXYZabcdefghijklmnopqrstuvwxyz0123456789'' @
               [CHR 0x21, CHR 0x23, CHR 0x24, CHR 0x25, CHR 0x26, CHR 0x27, CHR 0x2A,
                CHR 0x2B, CHR 0x2D, CHR 0x2E, CHR 0x5E, CHR 0x5F, CHR 0x60, CHR 0x7C,
                CHR 0x7E]))"

text \<open>
  One byte of \<^verbatim>\<open>canonicalMIMEHeaderKey\<close>: upper case at the start and after a
  hyphen, lower case elsewhere.
\<close>

definition canonicalByte :: "bool \<Rightarrow> char \<Rightarrow> char" where
  "canonicalByte upper c =
     (if upper \<and> CHR ''a'' \<le> c \<and> c \<le> CHR ''z'' then char_of ((of_char c :: nat) - 32)
      else if \<not> upper \<and> CHR ''A'' \<le> c \<and> c \<le> CHR ''Z'' then char_of ((of_char c :: nat) + 32)
      else c)"

fun canonicalMIMEHeaderKey :: "bool \<Rightarrow> string \<Rightarrow> string" where
  "canonicalMIMEHeaderKey upper [] = []"
| "canonicalMIMEHeaderKey upper (c # cs) =
     canonicalByte upper c # canonicalMIMEHeaderKey (canonicalByte upper c = CHR ''-'') cs"

definition CanonicalMIMEHeaderKey :: "string \<Rightarrow> string" where
  "CanonicalMIMEHeaderKey s =
     (if list_all validHeaderFieldByte s then canonicalMIMEHeaderKey True s else s)"

definition Header_Get :: "Header \<Rightarrow> string \<Rightarrow> string" where
  "Header_Get h key =
     (case h (CanonicalMIMEHeaderKey key) of
        Some (v # vs) \<Rightarrow> v
      | _ \<Rightarrow> [])"

definition Header_Add :: "Header \<Rightarrow> string \<Rightarrow> string \<Rightarrow> Header" where
  "Header_Add h key v =
     h(CanonicalMIMEHeaderKey key \<mapsto>
         (case h (CanonicalMIMEHeaderKey key) of None \<Rightarrow> [] | Some vs \<Rightarrow> vs) @ [v])"

definition Header_Set :: "Header \<Rightarrow> string \<Rightarrow> string \<Rightarrow> Header" where
  "Header_Set h key v = h(CanonicalMIMEHeaderKey key \<mapsto> [v])"

record Request =
  Method :: string
  URL :: string
  Header :: Header

text \<open>
  A response as the client hands it over: \<open>Body\<close> is what reading the body stream to
  its end gives (the bytes, or the message of the read error), \<open>BodyRead\<close> whether the
  stream has been read.
\<close>

record Response =
  StatusCode :: int
  Status :: string
  Header :: Header
  Body :: "string + string"
  BodyRead :: bool

text \<open>\<^verbatim>\<open>ioutil.ReadAll(response.Body)\<close>.\<close>

definition ReadAll :: "Response \<Rightarrow> (string + string) \<times> Response" where
  "ReadAll r =
     (Body r, r\<lparr>Body := (case Body r of Inr b \<Rightarrow> Inr [] | Inl e \<Rightarrow> Inl e), BodyRead := True\<rparr>)"

text \<open>\<^verbatim>\<open>req.SetBasicAuth(username, password)\<close>.\<close>

definition SetBasicAuth :: "Request \<Rightarrow> string \<Rightarrow> string \<Rightarrow> Request" where
  "SetBasicAuth r username password =
     r\<lparr>Request.Header := Header_Set (Request.Header r) ''Authorization''
          (''Basic '' @ EncodeToString (username @ '':'' @ password))\<rparr>"

subsection \<open>Package encoding/json\<close>

datatype json =
    JNull
  | JBool bool
  | JNumber string
  | JString string
  | JArray "json list"
  | JObject "(string \<times> json) list"

record TokenResponse =
  Token :: string

definition json_kind :: "json \<Rightarrow> string" where
  "json_kind v =
     (case v of JNull \<Rightarrow> ''null'' | JBool b \<Rightarrow> ''bool'' | JNumber n \<Rightarrow> ''number''
      | JString s \<Rightarrow> ''string'' | JArray xs \<Rightarrow> ''array'' | JObject kvs \<Rightarrow> ''object'')"

text \<open>\<^verbatim>\<open>b & caseMask\<close>, with \<^verbatim>\<open>caseMask = ^byte(0x20)\<close>.\<close>

definition caseMask :: "char \<Rightarrow> char" where
  "caseMask b = (let n = (of_char b :: nat) in if odd (n div 32) then char_of (n - 32) else b)"

text \<open>
  The decoder matches an object key against the struct field \<^verbatim>\<open>Token\<close> exactly or,
  failing that, with \<^verbatim>\<open>equalFoldRight\<close>: ASCII case is ignored, and the Kelvin sign
  (U+212A) stands for \<open>k\<close>, the long s (U+017F) for \<open>s\<close>.
\<close>

fun equalFoldRight :: "string \<Rightarrow> string \<Rightarrow> bool" where
  "equalFoldRight [] t = (t = [])"
| "equalFoldRight (sb # s) [] = False"
| "equalFoldRight (sb # s) (tb # t) =
     (if (of_char tb :: nat) < 128 then
        (if sb \<noteq> tb then
           (if CHR ''A'' \<le> caseMask sb \<and> caseMask sb \<le> CHR ''Z''
            then (if caseMask sb \<noteq> caseMask tb then False else equalFoldRight s t)
            else False)
         else equalFoldRight s t)
      else if sb = CHR ''s'' \<or> sb = CHR ''S'' then
        (case tb # t of
           c1 # c2 # t' \<Rightarrow> c1 = CHR 0xC5 \<and> c2 = CHR 0xBF \<and> equalFoldRight s t'
         | _ \<Rightarrow> False)
      else if sb = CHR ''k'' \<or> sb = CHR ''K'' then
        (case tb # t of
           c1 # c2 # c3 # t' \<Rightarrow>
             c1 = CHR 0xE2 \<and> c2 = CHR 0x84 \<and> c3 = CHR 0xAA \<and> equalFoldRight s t'
         | _ \<Rightarrow> False)
      else False)"

definition fieldMatch :: "string \<Rightarrow> bool" where
  "fieldMatch key = (key = ''Token'' \<or> equalFoldRight ''Token'' key)"

text \<open>\<^verbatim>\<open>d.saveError(err)\<close>: only the first error is kept.\<close>

definition saveError :: "error option \<Rightarrow> error \<Rightarrow> error option" where
  "saveError saved err = (case saved of None \<Rightarrow> Some err | Some e \<Rightarrow> Some e)"

text \<open>
  The members of a JSON object, decoded into a \<^verbatim>\<open>*TokenResponse\<close> in their order:
  a string is stored, \<open>null\<close> leaves the field, any other value is a type error;
  a key that matches no field is skipped.
\<close>

fun decodeObject :: "(string \<times> json) list \<Rightarrow> error option \<Rightarrow> TokenResponse \<Rightarrow> error option \<times> TokenResponse" where
  "decodeObject [] saved tok = (saved, tok)"
| "decodeObject ((key, v) # rest) saved tok =
     (if fieldMatch key then
        (case v of
           JString s \<Rightarrow> decodeObject rest saved (tok\<lparr>Token := s\<rparr>)
         | JNull \<Rightarrow> decodeObject rest saved tok
         | _ \<Rightarrow> decodeObject rest (saveError saved (UnmarshalTypeError (json_kind v))) tok)
      else decodeObject rest saved tok)"

definition decodeValue :: "json \<Rightarrow> TokenResponse \<Rightarrow> error option \<times> TokenResponse" where
  "decodeValue v tok =
     (case v of
        JObject kvs \<Rightarrow> decodeObject kvs None tok
      | JNull \<Rightarrow> (None, tok)
      | _ \<Rightarrow> (Some (UnmarshalTypeError (json_kind v)), tok))"

subsection \<open>What the file takes from outside\<close>

text \<open>
  \<^verbatim>\<open>internalPullImageOptions\<close>, \<^verbatim>\<open>parseImageOptions\<close> and
  \<^verbatim>\<open>normalizeRegistryAddress\<close> are declared in other files of the provider; the
  URL parser, the JSON scanner, SHA-256 and the network belong to the standard library
  and the world. The data source is verified for every behaviour of these.
  \<^item> \<open>url_Parse\<close>: the error message of \<^verbatim>\<open>url.Parse\<close> on a URL it rejects;
  \<^item> \<open>RoundTrip\<close>: the exchange \<^verbatim>\<open>client.Do\<close> carries out, given the requests sent
    so far, the client's transport and the request: a transport error or a response;
  \<^item> \<open>json_scan\<close>: the JSON value a text denotes, or the message of the syntax error;
  \<^item> \<open>Sum256\<close>: \<^verbatim>\<open>sha256.Sum256\<close>.
\<close>

record pullOpts =
  Registry :: string
  Repository :: string
  Tag :: string

text \<open>
  The transport of the client: \<open>None\<close> is the nil transport of a fresh
  \<^verbatim>\<open>http.DefaultClient\<close> (certificates are verified), \<open>Some b\<close> is
  \<^verbatim>\<open>&http.Transport{TLSClientConfig: &tls.Config{InsecureSkipVerify: b}}\<close>.
\<close>

type_synonym Transport = "bool option"

record env =
  parseImageOptions :: "string \<Rightarrow> pullOpts"
  normalizeRegistryAddress :: "string \<Rightarrow> string"
  url_Parse :: "string \<Rightarrow> string option"
  RoundTrip :: "(Transport \<times> Request) list \<Rightarrow> Transport \<Rightarrow> Request \<Rightarrow> string + Response"
  json_scan :: "string \<Rightarrow> string + json"
  Sum256 :: "string \<Rightarrow> string"

text \<open>
  The process state the file touches: the transport of the shared
  \<^verbatim>\<open>http.DefaultClient\<close>, and the requests sent so far, each with the transport it
  went over.
\<close>

record world =
  Transport :: Transport
  sent :: "(Transport \<times> Request) list"

text \<open>\<^verbatim>\<open>http.NewRequest(method, url, nil)\<close>.\<close>

definition NewRequest :: "env \<Rightarrow> string \<Rightarrow> string \<Rightarrow> error + Request" where
  "NewRequest E method url =
     (case url_Parse E url of
        Some msg \<Rightarrow> Inl (LibError msg)
      | None \<Rightarrow> Inr \<lparr>Method = method, URL = url, Header = Map.empty\<rparr>)"

text \<open>
  \<^verbatim>\<open>client.Do(req)\<close> with \<^verbatim>\<open>client == http.DefaultClient\<close>: the transport is read
  from the shared client when the request is sent.
\<close>

definition Do :: "env \<Rightarrow> Request \<Rightarrow> world \<Rightarrow> (error + Response) \<times> world" where
  "Do E req w =
     ((case RoundTrip E (sent w) (Transport w) req of
         Inl msg \<Rightarrow> Inl (LibError msg)
       | Inr resp \<Rightarrow> Inr resp),
      w\<lparr>sent := sent w @ [(Transport w, req)]\<rparr>)"

text \<open>\<^verbatim>\<open>json.Unmarshal(body, token)\<close>.\<close>

definition Unmarshal :: "env \<Rightarrow> string \<Rightarrow> TokenResponse \<Rightarrow> error option \<times> TokenResponse" where
  "Unmarshal E body tok =
     (case json_scan E body of
        Inl msg \<Rightarrow> (Some (LibError msg), tok)
      | Inr v \<Rightarrow> decodeValue v tok)"

text \<open>\<^verbatim>\<open>fmt.Sprintf("%x", bytes)\<close>: two lower-case hexadecimal digits a byte.\<close>

definition hexdigits :: string where
  "hexdigits = ''0123456789abcdef''"

definition hex :: "string \<Rightarrow> string" where
  "hex bs = concat (map (\<lambda>b. [hexdigits ! ((of_char b :: nat) div 16),
                               hexdigits ! ((of_char b :: nat) mod 16)]) bs)"

text \<open>Reading a map at a key it may lack, \<^verbatim>\<open>m[key]\<close>: the empty string then.\<close>

definition at :: "(string \<rightharpoonup> string) \<Rightarrow> string \<Rightarrow> string" where
  "at m key = (case m key of None \<Rightarrow> [] | Some v \<Rightarrow> v)"

section \<open>parseAuthHeader\<close>

text \<open>
  \<^verbatim>\<open>
  func parseAuthHeader(header string) map[string]string {
      parts := strings.SplitN(header, " ", 2)
      parts = strings.Split(parts[1], ",")
      opts := make(map[string]string)
      for _, part := range parts {
          vals := strings.SplitN(part, "=", 2)
          key := vals[0]
          val := strings.Trim(vals[1], "\", ")
          opts[key] = val
      }
      return opts
  }
  \<close>
  The loop over \<open>parts\<close> is \<open>parseAuthHeader_loop\<close>, with the map built so far.
\<close>

fun parseAuthHeader_loop :: "string list \<Rightarrow> (string \<rightharpoonup> string) \<Rightarrow> (string \<rightharpoonup> string) outcome" where
  "parseAuthHeader_loop [] opts = Returns opts"
| "parseAuthHeader_loop (part # parts) opts =
     (let vals = SplitN2 part CHR ''='' in
      case index vals 0 of
        Panics \<Rightarrow> Panics
      | Returns key \<Rightarrow>
          (case index vals 1 of
             Panics \<Rightarrow> Panics
           | Returns v1 \<Rightarrow>
               parseAuthHeader_loop parts (opts(key \<mapsto> Trim v1 [CHR 0x22, CHR '','', CHR '' '']))))"

definition parseAuthHeader :: "string \<Rightarrow> (string \<rightharpoonup> string) outcome" where
  "parseAuthHeader header =
     (case index (SplitN2 header CHR '' '') 1 of
        Panics \<Rightarrow> Panics
      | Returns p1 \<Rightarrow> parseAuthHeader_loop (Split p1 CHR '','') Map.empty)"

section \<open>getDigestFromResponse\<close>

text \<open>
  \<^verbatim>\<open>
  func getDigestFromResponse(response *http.Response) (string, error) {
      header := response.Header.Get("Docker-Content-Digest")
      if header == "" {
          body, err := ioutil.ReadAll(response.Body)
          if err != nil {
              return "", fmt.Errorf("Error reading registry response body: %s", err)
          }
          return fmt.Sprintf("sha256:%x", sha256.Sum256(body)), nil
      }
      return header, nil
  }
  \<close>
  The result \<^verbatim>\<open>(string, error)\<close> is a sum, \<open>Inl\<close> the error; the response comes
  back as the call leaves it.
\<close>

definition getDigestFromResponse :: "env \<Rightarrow> Response \<Rightarrow> (error + string) \<times> Response" where
  "getDigestFromResponse E response =
     (let header = Header_Get (Response.Header response) ''Docker-Content-Digest'' in
      if header = [] then
        (case ReadAll response of
           (Inl msg, response') \<Rightarrow>
             (Inl (Errorf ''Error reading registry response body: %s'' [OErr (LibError msg)]),
              response')
         | (Inr body, response') \<Rightarrow>
             (Inr (''sha256:'' @ hex (Sum256 E body)), response'))
      else (Inr header, response))"

section \<open>getImageDigest\<close>

text \<open>
  Lines 99 to 121: the manifest request, with its credentials and its
  \<^verbatim>\<open>Accept\<close> headers.
\<close>

definition manifestRequest ::
  "env \<Rightarrow> string \<Rightarrow> string \<Rightarrow> string \<Rightarrow> string \<Rightarrow> string \<Rightarrow> bool \<Rightarrow> error + Request" where
  "manifestRequest E registry img tag username password fallback =
     (case NewRequest E ''GET'' (''https://'' @ registry @ ''/v2/'' @ img @ ''/manifests/'' @ tag) of
        Inl err \<Rightarrow> Inl (Errorf ''Error creating registry request: %s'' [OErr err])
      | Inr req0 \<Rightarrow>
          (let req1 =
                 (if username \<noteq> [] then
                    (if registry \<noteq> ''ghcr.io'' then SetBasicAuth req0 username password
                     else req0\<lparr>Request.Header :=
                            Header_Add (Request.Header req0) ''Authorization''
                              (''Bearer '' @ EncodeToString password)\<rparr>)
                  else req0);
               h1 = Header_Add (Request.Header req1) ''Accept''
                      ''application/vnd.docker.distribution.manifest.v2+json'';
               h2 = Header_Add h1 ''Accept''
                      ''application/vnd.docker.distribution.manifest.list.v2+json'';
               h3 = Header_Add h2 ''Accept'' ''application/vnd.oci.image.manifest.v1+json'';
               h4 = Header_Add h3 ''Accept'' ''application/vnd.oci.image.index.v1+json'';
               h5 = (if fallback
                     then Header_Set h4 ''Accept''
                            ''application/vnd.docker.distribution.manifest.v1+prettyjws''
                     else h4)
           in Inr (req1\<lparr>Request.Header := h5\<rparr>)))"

text \<open>
  Lines 137 to 147: the token request for a parsed challenge.
\<close>

definition newTokenRequest ::
  "env \<Rightarrow> (string \<rightharpoonup> string) \<Rightarrow> string \<Rightarrow> string \<Rightarrow> error + Request" where
  "newTokenRequest E auth username password =
     (let params = Values_Set [] ''service'' (at auth ''service'');
          params = Values_Set params ''scope'' (at auth ''scope'')
      in case NewRequest E ''GET'' (at auth ''realm'' @ ''?'' @ Values_Encode params) of
           Inl err \<Rightarrow> Inl (Errorf ''Error creating registry request: %s'' [OErr err])
         | Inr tokenRequest0 \<Rightarrow>
             Inr (if username \<noteq> [] then SetBasicAuth tokenRequest0 username password
                  else tokenRequest0))"

text \<open>
  Lines 149 to 179: the token is fetched and the manifest request \<open>req\<close> is sent
  again with it.
\<close>

definition fetchTokenAndRetry ::
  "env \<Rightarrow> Request \<Rightarrow> Request \<Rightarrow> world \<Rightarrow> (error + string) outcome \<times> world" where
  "fetchTokenAndRetry E req tokenRequest w =
     (case Do E tokenRequest w of
        (Inl err, w1) \<Rightarrow>
          (Returns (Inl (Errorf ''Error during registry request: %s'' [OErr err])), w1)
      | (Inr tokenResponse, w1) \<Rightarrow>
          if StatusCode tokenResponse \<noteq> 200 then
            (Returns (Inl (Errorf (''Got bad response from registry: '' @ Status tokenResponse) [])),
             w1)
          else
            (case fst (ReadAll tokenResponse) of
               Inl msg \<Rightarrow>
                 (Returns (Inl (Errorf ''Error reading response body: %s'' [OErr (LibError msg)])),
                  w1)
             | Inr body \<Rightarrow>
                 (case Unmarshal E body \<lparr>Token = []\<rparr> of
                    (Some err, token) \<Rightarrow>
                      (Returns (Inl (Errorf ''Error parsing OAuth token response: %s'' [OErr err])),
                       w1)
                  | (None, token) \<Rightarrow>
                      (let req' = req\<lparr>Request.Header :=
                                     Header_Set (Request.Header req) ''Authorization''
                                       (''Bearer '' @ Token token)\<rparr>
                       in case Do E req' w1 of
                            (Inl err, w2) \<Rightarrow>
                              (Returns (Inl (Errorf ''Error during registry request: %s''
                                               [OErr err])), w2)
                          | (Inr digestResponse, w2) \<Rightarrow>
                              if StatusCode digestResponse \<noteq> 200 then
                                (Returns (Inl (Errorf (''Got bad response from registry: '' @
                                                        Status digestResponse) [])), w2)
                              else
                                (Returns (fst (getDigestFromResponse E digestResponse)), w2)))))"

text \<open>
  Lines 136 to 179, the branch of a 401 response with a \<^verbatim>\<open>Bearer\<close> challenge:
  \<open>req\<close> is the manifest request, \<open>resp\<close> the 401 response.
\<close>

definition bearerHandshake ::
  "env \<Rightarrow> Request \<Rightarrow> string \<Rightarrow> string \<Rightarrow> Response \<Rightarrow> world \<Rightarrow> (error + string) outcome \<times> world" where
  "bearerHandshake E req username password resp w =
     (case parseAuthHeader (Header_Get (Response.Header resp) ''www-authenticate'') of
        Panics \<Rightarrow> (Panics, w)
      | Returns auth \<Rightarrow>
          (case newTokenRequest E auth username password of
             Inl err \<Rightarrow> (Returns (Inl err), w)
           | Inr tokenRequest \<Rightarrow> fetchTokenAndRetry E req tokenRequest w))"

text \<open>
  The whole function. Its first statements (lines 95 to 97) take the shared
  \<^verbatim>\<open>http.DefaultClient\<close> and assign it a new transport carrying the flag; the
  \<^verbatim>\<open>switch\<close> on the status code follows the source's case order.
\<close>

definition getImageDigest ::
  "env \<Rightarrow> string \<Rightarrow> string \<Rightarrow> string \<Rightarrow> string \<Rightarrow> string \<Rightarrow> bool \<Rightarrow> bool \<Rightarrow> world
     \<Rightarrow> (error + string) outcome \<times> world" where
  "getImageDigest E registry img tag username password insecureSkipVerify fallback w0 =
     (let w = w0\<lparr>Transport := Some insecureSkipVerify\<rparr> in
      case manifestRequest E registry img tag username password fallback of
        Inl err \<Rightarrow> (Returns (Inl err), w)
      | Inr req \<Rightarrow>
          (case Do E req w of
             (Inl err, w1) \<Rightarrow>
               (Returns (Inl (Errorf ''Error during registry request: %s'' [OErr err])), w1)
           | (Inr resp, w1) \<Rightarrow>
               if StatusCode resp = 200 then
                 (Returns (fst (getDigestFromResponse E resp)), w1)
               else if StatusCode resp = 401 then
                 (if HasPrefix (Header_Get (Response.Header resp) ''www-authenticate'') ''Bearer''
                  then bearerHandshake E req username password resp w1
                  else (Returns (Inl (Errorf (''Bad credentials: '' @ Status resp) [])), w1))
               else
                 (Returns (Inl (Errorf (''Got bad response from registry: '' @ Status resp) [])),
                  w1)))"

section \<open>dataSourceDockerRegistryImageRead\<close>

text \<open>Lines 52 to 69: the parsed reference is normalised in place.\<close>

definition normalizePullOpts :: "pullOpts \<Rightarrow> pullOpts" where
  "normalizePullOpts pullOpts =
     (let p1 = (if Registry pullOpts = []
                then pullOpts\<lparr>Registry := ''registry-1.docker.io''\<rparr>
                else pullOpts\<lparr>Repository :=
                       Replace1 (Repository pullOpts) (Registry pullOpts @ ''/'') []\<rparr>);
          p2 = (if Registry p1 = ''registry-1.docker.io''
                then (if \<not> Contains (Repository p1) CHR ''/''
                      then p1\<lparr>Repository := ''library/'' @ Repository p1\<rparr>
                      else p1)
                else p1)
      in if Tag p2 = [] then p2\<lparr>Tag := ''latest''\<rparr> else p2)"

text \<open>
  The resource data \<open>d\<close> (the two attributes read, the id and the attribute set) and an
  entry of \<^verbatim>\<open>authConfig.Configs\<close>.
\<close>

record ResourceData =
  name :: string
  insecure_skip_verify :: bool
  Id :: string
  sha256_digest :: string

record AuthConfig =
  Username :: string
  Password :: string

definition dataSourceDockerRegistryImageRead ::
  "env \<Rightarrow> (string \<rightharpoonup> AuthConfig) \<Rightarrow> ResourceData \<Rightarrow> world
     \<Rightarrow> Diagnostics outcome \<times> ResourceData \<times> world" where
  "dataSourceDockerRegistryImageRead E Configs d w =
     (let pullOpts = normalizePullOpts (parseImageOptions E (name d));
          (username, password) =
             (case Configs (normalizeRegistryAddress E (Registry pullOpts)) of
                Some auth \<Rightarrow> (Username auth, Password auth)
              | None \<Rightarrow> ([], []));
          insecureSkipVerify = insecure_skip_verify d
      in case getImageDigest E (Registry pullOpts) (Repository pullOpts) (Tag pullOpts)
                username password insecureSkipVerify False w of
           (Panics, w1) \<Rightarrow> (Panics, d, w1)
         | (Returns (Inr digest), w1) \<Rightarrow>
             (Returns Diag_nil, d\<lparr>Id := digest, sha256_digest := digest\<rparr>, w1)
         | (Returns (Inl err1), w1) \<Rightarrow>
             (case getImageDigest E (Registry pullOpts) (Repository pullOpts) (Tag pullOpts)
                     username password insecureSkipVerify True w1 of
                (Panics, w2) \<Rightarrow> (Panics, d, w2)
              | (Returns (Inr digest), w2) \<Rightarrow>
                  (Returns Diag_nil, d\<lparr>Id := digest, sha256_digest := digest\<rparr>, w2)
              | (Returns (Inl err), w2) \<Rightarrow>
                  (Returns (Diag_Errorf
                     ''Got error when attempting to fetch image version %s:%s from registry: %s''
                     [OStr (Repository pullOpts), OStr (Tag pullOpts), OErr err]), d, w2)))"

section \<open>A scripted registry\<close>

text \<open>
  For the concrete runs below: a world that answers the requests of a run, in their
  order, with the given answers (a transport error once they are used up); every URL
  parses, the reference parser takes the whole name as the repository, host names are
  kept as they are, and \<open>scan\<close> and \<open>digest\<close> stand for the JSON scanner and SHA-256.
\<close>

definition scripted ::
  "(string + Response) list \<Rightarrow> (string \<Rightarrow> string + json) \<Rightarrow> (string \<Rightarrow> string) \<Rightarrow> env" where
  "scripted answers scan digest =
     \<lparr>parseImageOptions = (\<lambda>s. \<lparr>Registry = [], Repository = s, Tag = []\<rparr>),
      normalizeRegistryAddress = (\<lambda>s. s),
      url_Parse = (\<lambda>u. None),
      RoundTrip = (\<lambda>hist t req.
         if length hist < length answers then answers ! length hist
         else Inl ''connection refused''),
      json_scan = scan,
      Sum256 = digest\<rparr>"

definition answer :: "int \<Rightarrow> string \<Rightarrow> (string \<times> string) list \<Rightarrow> string \<Rightarrow> Response" where
  "answer code status headers body =
     \<lparr>StatusCode = code, Status = status,
      Header = map_of (map (\<lambda>(k, v). (k, [v])) headers),
      Body = Inr body, BodyRead = False\<rparr>"

definition challenge :: Response where
  "challenge =
     answer 401 ''401 Unauthorized''
       [(''Www-Authenticate'',
         ''Bearer realm='' @ [CHR 0x22] @ ''https://auth.example/token'' @ [CHR 0x22] @
         '',service='' @ [CHR 0x22] @ ''registry.example'' @ [CHR 0x22] @
         '',scope='' @ [CHR 0x22] @ ''repository:foo/bar:pull'' @ [CHR 0x22])] []"

definition scan_example :: "string \<Rightarrow> string + json" where
  "scan_example s =
     (if s = ''{}'' then Inr (JObject [])
      else if s = ''{'' @ [CHR 0x22] @ ''token'' @ [CHR 0x22] @ '':'' @ [CHR 0x22] @ ''abc'' @ [CHR 0x22] @ ''}''
        then Inr (JObject [(''token'', JString ''abc'')])
      else Inl ''invalid character'')"

definition world0 :: world where
  "world0 = \<lparr>Transport = None, sent = []\<rparr>"

section \<open>Properties\<close>

subsection \<open>Normalising the reference\<close>

lemma Replace1_prefix: "old \<noteq> [] \<Longrightarrow> Replace1 (old @ rest) old new = new @ rest"
  by (cases old) (simp_all add: HasPrefix_def)

text \<open>
  Claim C6. Normalisation of a parsed reference \<open>p\<close>: an empty registry becomes
  \<open>registry-1.docker.io\<close>; a registry that is given is kept, and when the repository
  starts with the registry and a slash that prefix is stripped; when the resolved
  registry is the default host and the repository (after the stripping) has no slash,
  \<open>library/\<close> is put in front; an empty tag becomes \<open>latest\<close>. The reference
  \<open>alpine\<close>, parsed to an empty registry, the repository \<open>alpine\<close> and an empty tag,
  becomes \<open>registry-1.docker.io\<close>, \<open>library/alpine\<close>, \<open>latest\<close>.
\<close>

theorem normalizePullOpts_rules:
  "(Registry p = [] \<longrightarrow>
      Registry (normalizePullOpts p) = ''registry-1.docker.io'' \<and>
      Repository (normalizePullOpts p) =
        (if CHR ''/'' \<in> set (Repository p) then Repository p else ''library/'' @ Repository p))
   \<and> (Registry p \<noteq> [] \<longrightarrow>
      Registry (normalizePullOpts p) = Registry p \<and>
      (\<forall>rest. Repository p = Registry p @ ''/'' @ rest \<longrightarrow>
         Repository (normalizePullOpts p) =
           (if Registry p = ''registry-1.docker.io'' \<and> CHR ''/'' \<notin> set rest
            then ''library/'' @ rest else rest)))
   \<and> Tag (normalizePullOpts p) = (if Tag p = [] then ''latest'' else Tag p)
   \<and> normalizePullOpts \<lparr>Registry = [], Repository = ''alpine'', Tag = []\<rparr> =
        \<lparr>Registry = ''registry-1.docker.io'', Repository = ''library/alpine'', Tag = ''latest''\<rparr>"
proof -
  have a: "Registry p = [] \<Longrightarrow>
      Registry (normalizePullOpts p) = ''registry-1.docker.io'' \<and>
      Repository (normalizePullOpts p) =
        (if CHR ''/'' \<in> set (Repository p) then Repository p else ''library/'' @ Repository p)"
    by (simp add: normalizePullOpts_def Let_def Contains_def)
  have b: "Registry p \<noteq> [] \<Longrightarrow> Registry (normalizePullOpts p) = Registry p"
    by (simp add: normalizePullOpts_def Let_def Contains_def)
  have c: "Repository (normalizePullOpts p) =
           (if Registry p = ''registry-1.docker.io'' \<and> CHR ''/'' \<notin> set rest
            then ''library/'' @ rest else rest)"
    if "Registry p \<noteq> []" "Repository p = Registry p @ ''/'' @ rest" for rest
  proof -
    have "Replace1 (Repository p) (Registry p @ ''/'') [] = rest"
      using Replace1_prefix [of "Registry p @ ''/''" rest "[]"] that by simp
    then show ?thesis using that
      by (simp add: normalizePullOpts_def Let_def Contains_def)
  qed
  have d: "Tag (normalizePullOpts p) = (if Tag p = [] then ''latest'' else Tag p)"
    by (simp add: normalizePullOpts_def Let_def Contains_def)
  have e: "normalizePullOpts \<lparr>Registry = [], Repository = ''alpine'', Tag = []\<rparr> =
        \<lparr>Registry = ''registry-1.docker.io'', Repository = ''library/alpine'', Tag = ''latest''\<rparr>"
    by (simp add: normalizePullOpts_def Let_def Contains_def)
  show ?thesis using a b c d e by blast
qed

text \<open>
  The two other references of the specification, as they reach the normalisation:
  \<open>myregistry.com/foo/bar:1.2\<close> and \<open>consul:1.9\<close>.
\<close>

theorem normalizePullOpts_rules_witness:
  "normalizePullOpts
     \<lparr>Registry = ''myregistry.com'', Repository = ''myregistry.com/foo/bar'', Tag = ''1.2''\<rparr> =
     \<lparr>Registry = ''myregistry.com'', Repository = ''foo/bar'', Tag = ''1.2''\<rparr>
   \<and> normalizePullOpts \<lparr>Registry = [], Repository = ''consul'', Tag = ''1.9''\<rparr> =
     \<lparr>Registry = ''registry-1.docker.io'', Repository = ''library/consul'', Tag = ''1.9''\<rparr>"
proof -
  have 1: "Repository (normalizePullOpts \<lparr>Registry = ''myregistry.com'',
              Repository = ''myregistry.com/foo/bar'', Tag = ''1.2''\<rparr>) = ''foo/bar''"
    and 2: "Registry (normalizePullOpts \<lparr>Registry = ''myregistry.com'',
              Repository = ''myregistry.com/foo/bar'', Tag = ''1.2''\<rparr>) = ''myregistry.com''"
    and 3: "Tag (normalizePullOpts \<lparr>Registry = ''myregistry.com'',
              Repository = ''myregistry.com/foo/bar'', Tag = ''1.2''\<rparr>) = ''1.2''"
    using normalizePullOpts_rules [of "\<lparr>Registry = ''myregistry.com'',
              Repository = ''myregistry.com/foo/bar'', Tag = ''1.2''\<rparr>"]
    by simp_all
  have 4: "Repository (normalizePullOpts \<lparr>Registry = [], Repository = ''consul'',
              Tag = ''1.9''\<rparr>) = ''library/consul''"
    and 5: "Registry (normalizePullOpts \<lparr>Registry = [], Repository = ''consul'',
              Tag = ''1.9''\<rparr>) = ''registry-1.docker.io''"
    and 6: "Tag (normalizePullOpts \<lparr>Registry = [], Repository = ''consul'',
              Tag = ''1.9''\<rparr>) = ''1.9''"
    using normalizePullOpts_rules [of "\<lparr>Registry = [], Repository = ''consul'', Tag = ''1.9''\<rparr>"]
    by simp_all
  show ?thesis using 1 2 3 4 5 6 by (simp add: pullOpts.equality)
qed

subsection \<open>The digest of a response\<close>

lemma canonical_Authorization: "CanonicalMIMEHeaderKey ''Authorization'' = ''Authorization''"
  by code_simp

lemma canonical_Accept: "CanonicalMIMEHeaderKey ''Accept'' = ''Accept''"
  by code_simp

lemma length_hex: "length (hex bs) = 2 * length bs"
  by (induction bs) (simp_all add: hex_def)

lemma of_char_less_256: "(of_char c :: nat) < 256"
  by (cases c) simp

lemma hexdigit_nth: "n < 16 \<Longrightarrow> hexdigits ! n \<in> set hexdigits"
  by (rule nth_mem) (simp add: hexdigits_def)

lemma hex_lower: "list_all (\<lambda>c. c \<in> set hexdigits) (hex bs)"
proof (induction bs)
  case Nil
  show ?case by (simp add: hex_def)
next
  case (Cons b bs)
  have "(of_char b :: nat) div 16 < 16" using of_char_less_256 [of b] by arith
  moreover have "(of_char b :: nat) mod 16 < 16" by simp
  ultimately show ?case using Cons by (simp add: hex_def hexdigit_nth)
qed

text \<open>
  Claim C2. When the response carries a non-empty \<^verbatim>\<open>Docker-Content-Digest\<close>
  header, \<open>getDigestFromResponse\<close> returns the value of that header as it is and
  leaves the response as it found it: the body is not read, and whatever the body is,
  the result is the header.
\<close>

theorem getDigestFromResponse_header_verbatim:
  assumes "Header_Get (Response.Header response) ''Docker-Content-Digest'' \<noteq> []"
  shows "getDigestFromResponse E response =
           (Inr (Header_Get (Response.Header response) ''Docker-Content-Digest''), response)
         \<and> fst (getDigestFromResponse E (response\<lparr>Body := b\<rparr>)) =
           Inr (Header_Get (Response.Header response) ''Docker-Content-Digest'')"
  using assms by (simp add: getDigestFromResponse_def Let_def)

theorem getDigestFromResponse_header_verbatim_witness:
  "fst (getDigestFromResponse (scripted [] scan_example id)
      (answer 200 ''200 OK''
         [(''Docker-Content-Digest'',
           ''sha256:e3b0c44298fc1c149afbf4c8996fb92427ae41e4649b934ca495991b7852b855'')]
         ''not the empty body'')) =
     Inr ''sha256:e3b0c44298fc1c149afbf4c8996fb92427ae41e4649b934ca495991b7852b855''
   \<and> \<not> BodyRead (snd (getDigestFromResponse (scripted [] scan_example id)
      (answer 200 ''200 OK''
         [(''Docker-Content-Digest'',
           ''sha256:e3b0c44298fc1c149afbf4c8996fb92427ae41e4649b934ca495991b7852b855'')]
         ''not the empty body'')))"
proof -
  have h: "Header_Get (Response.Header (answer 200 ''200 OK''
         [(''Docker-Content-Digest'',
           ''sha256:e3b0c44298fc1c149afbf4c8996fb92427ae41e4649b934ca495991b7852b855'')]
         ''not the empty body'')) ''Docker-Content-Digest'' =
      ''sha256:e3b0c44298fc1c149afbf4c8996fb92427ae41e4649b934ca495991b7852b855''"
    by code_simp
  have n: "\<not> BodyRead (answer 200 ''200 OK''
         [(''Docker-Content-Digest'',
           ''sha256:e3b0c44298fc1c149afbf4c8996fb92427ae41e4649b934ca495991b7852b855'')]
         ''not the empty body'')"
    by (simp add: answer_def)
  show ?thesis
    using getDigestFromResponse_header_verbatim [of "answer 200 ''200 OK''
         [(''Docker-Content-Digest'',
           ''sha256:e3b0c44298fc1c149afbf4c8996fb92427ae41e4649b934ca495991b7852b855'')]
         ''not the empty body''" "scripted [] scan_example id"] n
    by (simp add: h)
qed

text \<open>
  Claim C3. When the response carries no \<^verbatim>\<open>Docker-Content-Digest\<close> header (or
  an empty one) and its body reads as the bytes \<open>body\<close>, the result is \<open>sha256:\<close>
  followed by the lower-case hexadecimal digits, two a byte, of the SHA-256 of
  \<open>body\<close>. The body has been read. The result is a function of the body bytes: any
  other such response with the same body gives the same result. (A body whose read
  fails has no bytes to hash: the read error is returned.)
\<close>

theorem getDigestFromResponse_body_digest:
  assumes "Header_Get (Response.Header response) ''Docker-Content-Digest'' = []"
      and "Body response = Inr body"
  shows "fst (getDigestFromResponse E response) = Inr (''sha256:'' @ hex (Sum256 E body))
         \<and> BodyRead (snd (getDigestFromResponse E response))
         \<and> length (hex (Sum256 E body)) = 2 * length (Sum256 E body)
         \<and> list_all (\<lambda>c. c \<in> set ''0123456789abcdef'') (hex (Sum256 E body))
         \<and> (Header_Get (Response.Header response') ''Docker-Content-Digest'' = [] \<and>
              Body response' = Inr body \<longrightarrow>
              fst (getDigestFromResponse E response') = fst (getDigestFromResponse E response))"
proof -
  have a: "fst (getDigestFromResponse E r) = Inr (''sha256:'' @ hex (Sum256 E body))"
    if "Header_Get (Response.Header r) ''Docker-Content-Digest'' = []" "Body r = Inr body" for r
    using that by (simp add: getDigestFromResponse_def ReadAll_def)
  have b: "BodyRead (snd (getDigestFromResponse E response))"
    using assms by (simp add: getDigestFromResponse_def ReadAll_def)
  have c: "list_all (\<lambda>c. c \<in> set ''0123456789abcdef'') (hex (Sum256 E body))"
    using hex_lower [of "Sum256 E body"] by (simp only: hexdigits_def)
  show ?thesis using a [OF assms] a b c length_hex by simp
qed

theorem getDigestFromResponse_body_digest_witness:
  "fst (getDigestFromResponse (scripted [] scan_example (\<lambda>b. [CHR 0x00, CHR 0x1f, CHR 0xab, CHR 0xff]))
      (answer 200 ''200 OK'' [(''Content-Type'', ''application/json'')] ''{}'')) =
     Inr ''sha256:001fabff''"
proof -
  have h: "Header_Get (Response.Header (answer 200 ''200 OK'' [(''Content-Type'', ''application/json'')] ''{}''))
      ''Docker-Content-Digest'' = []"
    by code_simp
  have b: "Body (answer 200 ''200 OK'' [(''Content-Type'', ''application/json'')] ''{}'') = Inr ''{}''"
    by (simp add: answer_def)
  have x: "hex [CHR 0x00, CHR 0x1f, CHR 0xab, CHR 0xff] = ''001fabff''"
    by code_simp
  show ?thesis
    using getDigestFromResponse_body_digest [OF h b,
      of "scripted [] scan_example (\<lambda>b. [CHR 0x00, CHR 0x1f, CHR 0xab, CHR 0xff])"]
    by (simp add: scripted_def x)
qed

subsection \<open>The requests\<close>

lemma Header_Add_other:
  "CanonicalMIMEHeaderKey k \<noteq> CanonicalMIMEHeaderKey k' \<Longrightarrow> Header_Add h k v (CanonicalMIMEHeaderKey k') = h (CanonicalMIMEHeaderKey k')"
  by (simp add: Header_Add_def)

lemma Header_Set_other:
  "CanonicalMIMEHeaderKey k \<noteq> CanonicalMIMEHeaderKey k' \<Longrightarrow> Header_Set h k v (CanonicalMIMEHeaderKey k') = h (CanonicalMIMEHeaderKey k')"
  by (simp add: Header_Set_def)

lemma Accept_not_Authorization: "CanonicalMIMEHeaderKey ''Accept'' \<noteq> CanonicalMIMEHeaderKey ''Authorization''"
  by (simp add: canonical_Accept canonical_Authorization)

lemma Accept_keeps_Authorization:
  "Header_Add h ''Accept'' v ''Authorization'' = h ''Authorization''"
  "Header_Set h ''Accept'' v ''Authorization'' = h ''Authorization''"
  using Header_Add_other [OF Accept_not_Authorization, of h v]
        Header_Set_other [OF Accept_not_Authorization, of h v]
  by (simp_all add: canonical_Authorization)

lemma Header_Set_Authorization:
  "Header_Set h ''Authorization'' v ''Authorization'' = Some [v]"
  by (simp add: Header_Set_def canonical_Authorization)

lemma Header_Add_Authorization_empty:
  "Header_Add Map.empty ''Authorization'' v ''Authorization'' = Some [v]"
  by (simp add: Header_Add_def canonical_Authorization)

lemma manifestRequest_fields:
  assumes "manifestRequest E registry img tag username password fallback = Inr req"
  shows "Method req = ''GET''
     \<and> URL req = ''https://'' @ registry @ ''/v2/'' @ img @ ''/manifests/'' @ tag
     \<and> Request.Header req ''Authorization'' =
       (if username = [] then None
        else if registry = ''ghcr.io'' then Some [''Bearer '' @ EncodeToString password]
        else Some [''Basic '' @ EncodeToString (username @ '':'' @ password)])"
  using assms
  by (auto simp: manifestRequest_def NewRequest_def Let_def SetBasicAuth_def
        Accept_keeps_Authorization Header_Set_Authorization Header_Add_Authorization_empty
      split: option.splits if_splits)

text \<open>
  Claim C5, as amended. The manifest request is a \<open>GET\<close> of
  \<open>https://<registry>/v2/<image>/manifests/<tag>\<close>. The test the code makes is on the
  user name alone: with a non-empty user name the request carries exactly one
  \<open>Authorization\<close> value, \<open>Bearer\<close> and the standard base64 of the password for
  the host \<open>ghcr.io\<close>, HTTP basic auth of user name and password for every other
  host; with an empty user name it carries none, whatever the password.
\<close>

theorem manifestRequest_authorization:
  assumes "manifestRequest E registry img tag username password fallback = Inr req"
  shows "Method req = ''GET''
     \<and> URL req = ''https://'' @ registry @ ''/v2/'' @ img @ ''/manifests/'' @ tag
     \<and> Request.Header req ''Authorization'' =
       (if username = [] then None
        else if registry = ''ghcr.io'' then Some [''Bearer '' @ EncodeToString password]
        else Some [''Basic '' @ EncodeToString (username @ '':'' @ password)])"
  using manifestRequest_fields [OF assms] .

text \<open>
  The claim as stated fails for credentials that are not anonymous (the password is
  set) and have no user name: on \<open>ghcr.io\<close> the request then carries no
  \<open>Authorization\<close> header at all.
\<close>

theorem manifestRequest_authorization_counterexample:
  "(case manifestRequest (scripted [] scan_example id) ''ghcr.io'' ''foo/bar'' ''v1'' [] ''tokenPW'' False of
      Inl err \<Rightarrow> Some [''no request'']
    | Inr req \<Rightarrow> Request.Header req ''Authorization'') = None"
  by code_simp

text \<open>The scenario of the specification: \<open>ghcr.io/foo/bar:v1\<close>, user and \<open>tokenPW\<close>.\<close>

theorem manifestRequest_authorization_witness:
  "(case manifestRequest (scripted [] scan_example id) ''ghcr.io'' ''foo/bar'' ''v1'' ''user'' ''tokenPW'' False of
      Inl err \<Rightarrow> None
    | Inr req \<Rightarrow> Request.Header req ''Authorization'') = Some [''Bearer dG9rZW5QVw=='']"
proof -
  obtain req where r:
    "manifestRequest (scripted [] scan_example id) ''ghcr.io'' ''foo/bar'' ''v1'' ''user'' ''tokenPW'' False = Inr req"
    by (simp add: manifestRequest_def NewRequest_def scripted_def)
  have e: "EncodeToString ''tokenPW'' = ''dG9rZW5QVw==''"
    by code_simp
  show ?thesis
    using manifestRequest_authorization [OF r] by (simp add: r e)
qed

lemma sort_service_scope:
  "sort_key fst [(''service'', [a]), (''scope'', [b])] = [(''scope'', [b]), (''service'', [a])]"
  by simp

lemma QueryEscape_keys: "QueryEscape ''scope'' = ''scope''" "QueryEscape ''service'' = ''service''"
  by code_simp+

text \<open>
  Claim C7, as amended. The token request is a \<open>GET\<close> of the realm, a question mark
  and the two parameters as \<^verbatim>\<open>url.Values.Encode\<close> writes them, sorted by key:
  \<open>scope\<close> first, then \<open>service\<close>, both values query-escaped, the realm as it is.
  HTTP basic auth is attached exactly when the user name is not empty.
\<close>

theorem newTokenRequest_url:
  assumes "newTokenRequest E auth username password = Inr tokenRequest"
  shows "Method tokenRequest = ''GET''
     \<and> URL tokenRequest =
         at auth ''realm'' @ ''?scope='' @ QueryEscape (at auth ''scope'') @
         ''&service='' @ QueryEscape (at auth ''service'')
     \<and> Request.Header tokenRequest ''Authorization'' =
       (if username = [] then None
        else Some [''Basic '' @ EncodeToString (username @ '':'' @ password)])"
proof -
  have enc: "Values_Encode [(''service'', [a]), (''scope'', [b])] =
      ''scope='' @ QueryEscape b @ ''&service='' @ QueryEscape a" for a b
    by (simp add: Values_Encode_def sort_service_scope QueryEscape_keys del: QueryEscape.simps)
  show ?thesis using assms
    by (auto simp: newTokenRequest_def NewRequest_def Let_def enc SetBasicAuth_def
          Header_Set_Authorization
        split: option.splits if_splits)
qed

text \<open>
  The claim as stated puts \<open>service\<close> first; for the challenge of the specification
  the URL is the one with \<open>scope\<close> first.
\<close>

theorem newTokenRequest_url_counterexample:
  "(case parseAuthHeader (Header_Get (Response.Header challenge) ''www-authenticate'') of
      Panics \<Rightarrow> []
    | Returns auth \<Rightarrow>
        (case newTokenRequest (scripted [] scan_example id) auth [] [] of
           Inl err \<Rightarrow> []
         | Inr tokenRequest \<Rightarrow> URL tokenRequest)) =
     ''https://auth.example/token?scope=repository%3Afoo%2Fbar%3Apull&service=registry.example''
   \<and> (case parseAuthHeader (Header_Get (Response.Header challenge) ''www-authenticate'') of
      Panics \<Rightarrow> []
    | Returns auth \<Rightarrow>
        (case newTokenRequest (scripted [] scan_example id) auth [] [] of
           Inl err \<Rightarrow> []
         | Inr tokenRequest \<Rightarrow> URL tokenRequest)) \<noteq>
     ''https://auth.example/token?service=registry.example&scope=repository%3Afoo%2Fbar%3Apull''"
  by code_simp

theorem newTokenRequest_url_witness:
  "(case newTokenRequest (scripted [] scan_example id)
          [''realm'' \<mapsto> ''https://auth.example/token'', ''service'' \<mapsto> ''registry.example'',
           ''scope'' \<mapsto> ''repository:foo/bar:pull''] ''user'' ''pw'' of
      Inl err \<Rightarrow> ([], None)
    | Inr tokenRequest \<Rightarrow> (URL tokenRequest, Request.Header tokenRequest ''Authorization'')) =
     (''https://auth.example/token?scope=repository%3Afoo%2Fbar%3Apull&service=registry.example'',
      Some [''Basic dXNlcjpwdw==''])"
proof -
  obtain r where r:
    "newTokenRequest (scripted [] scan_example id)
          [''realm'' \<mapsto> ''https://auth.example/token'', ''service'' \<mapsto> ''registry.example'',
           ''scope'' \<mapsto> ''repository:foo/bar:pull''] ''user'' ''pw'' = Inr r"
    by (simp add: newTokenRequest_def NewRequest_def scripted_def Let_def)
  have e: "EncodeToString ''user:pw'' = ''dXNlcjpwdw==''"
    by code_simp
  have q: "QueryEscape ''repository:foo/bar:pull'' = ''repository%3Afoo%2Fbar%3Apull''"
      "QueryEscape ''registry.example'' = ''registry.example''"
    by code_simp+
  show ?thesis
    using newTokenRequest_url [OF r] by (simp add: r e q at_def del: QueryEscape.simps)
qed

subsection \<open>The token response\<close>

lemma saveError_Some: "saveError saved err \<noteq> None"
  by (simp add: saveError_def split: option.splits)

lemma decodeObject_saved:
  "saved \<noteq> None \<Longrightarrow> fst (decodeObject kvs saved tok) \<noteq> None"
proof (induction kvs arbitrary: saved tok)
  case Nil
  then show ?case by simp
next
  case (Cons kv kvs)
  obtain k v where kv: "kv = (k, v)" by (cases kv)
  show ?case using Cons saveError_Some
    by (cases v) (simp_all add: kv)
qed

lemma decodeObject_accepts:
  "(fst (decodeObject kvs None tok) = None) =
     list_all (\<lambda>(k, x). fieldMatch k \<longrightarrow> (case x of JNull \<Rightarrow> True | JString s \<Rightarrow> True | _ \<Rightarrow> False)) kvs"
proof (induction kvs arbitrary: tok)
  case Nil
  show ?case by simp
next
  case (Cons kv kvs)
  obtain k v where kv: "kv = (k, v)" by (cases kv)
  show ?case using Cons decodeObject_saved [OF saveError_Some]
    by (cases v) (simp_all add: kv)
qed

lemma decodeObject_no_member:
  "list_all (\<lambda>(k, x). \<not> fieldMatch k) kvs \<Longrightarrow> decodeObject kvs saved tok = (saved, tok)"
  by (induction kvs arbitrary: saved tok) auto

lemma fieldMatch_token: "fieldMatch ''token''" "fieldMatch ''Token''" "fieldMatch ''TOKEN''"
  by code_simp+

lemma fetch_ok:
  assumes "RoundTrip E (sent w) (Transport w) tokenRequest = Inr tokenResponse"
      and "StatusCode tokenResponse = 200"
      and "Body tokenResponse = Inr body"
      and "Unmarshal E body \<lparr>Token = []\<rparr> = (None, token)"
  shows "sent (snd (fetchTokenAndRetry E req tokenRequest w)) =
           sent w @ [(Transport w, tokenRequest),
                     (Transport w, req\<lparr>Request.Header :=
                        Header_Set (Request.Header req) ''Authorization'' (''Bearer '' @ Token token)\<rparr>)]"
    and "Transport (snd (fetchTokenAndRetry E req tokenRequest w)) = Transport w"
    and "\<forall>err. fst (fetchTokenAndRetry E req tokenRequest w) \<noteq>
           Returns (Inl (Errorf ''Error parsing OAuth token response: %s'' [OErr err]))"
  using assms
  by (auto simp: fetchTokenAndRetry_def Do_def ReadAll_def Let_def getDigestFromResponse_def
           split: sum.splits prod.splits option.splits if_splits)

lemma fetch_fail:
  assumes "\<not> (\<exists>tokenResponse body token.
              RoundTrip E (sent w) (Transport w) tokenRequest = Inr tokenResponse \<and>
              StatusCode tokenResponse = 200 \<and> Body tokenResponse = Inr body \<and>
              Unmarshal E body \<lparr>Token = []\<rparr> = (None, token))"
  shows "snd (fetchTokenAndRetry E req tokenRequest w) =
           w\<lparr>sent := sent w @ [(Transport w, tokenRequest)]\<rparr>"
    and "\<exists>err. fst (fetchTokenAndRetry E req tokenRequest w) = Returns (Inl err)"
  using assms
  by (auto simp: fetchTokenAndRetry_def Do_def ReadAll_def Let_def
           split: sum.splits prod.splits option.splits if_splits)

lemma fetch_parse_error:
  assumes "RoundTrip E (sent w) (Transport w) tokenRequest = Inr tokenResponse"
      and "StatusCode tokenResponse = 200"
      and "Body tokenResponse = Inr body"
      and "Unmarshal E body \<lparr>Token = []\<rparr> = (Some err, token)"
  shows "fetchTokenAndRetry E req tokenRequest w =
           (Returns (Inl (Errorf ''Error parsing OAuth token response: %s'' [OErr err])),
            w\<lparr>sent := sent w @ [(Transport w, tokenRequest)]\<rparr>)"
  using assms
  by (simp add: fetchTokenAndRetry_def Do_def ReadAll_def)

text \<open>
  Claim C8, as amended. Let the token endpoint answer 200 with a body that reads.
  The handshake fails with the error \<open>Error parsing OAuth token response\<close> exactly
  when \<^verbatim>\<open>json.Unmarshal\<close> rejects the body: the body is not JSON; or its value is
  neither an object nor \<open>null\<close>; or a member whose name matches the field
  \<^verbatim>\<open>Token\<close> holds a value that is neither a string nor \<open>null\<close>. The token
  request is then the only request sent. An object with no such member is accepted:
  a missing \<open>token\<close> is no error, the token is the empty string. Whenever the body is
  accepted, the manifest request is sent again, right after the token request, with
  its \<open>Authorization\<close> header set to the one value \<open>Bearer\<close> and the token,
  whatever the header held before.
\<close>

theorem token_response_decoding:
  assumes "RoundTrip E (sent w) (Transport w) tokenRequest = Inr tokenResponse"
      and "StatusCode tokenResponse = 200"
      and "Body tokenResponse = Inr body"
  shows "(\<forall>msg. json_scan E body = Inl msg \<longrightarrow>
            fetchTokenAndRetry E req tokenRequest w =
              (Returns (Inl (Errorf ''Error parsing OAuth token response: %s'' [OErr (LibError msg)])),
               w\<lparr>sent := sent w @ [(Transport w, tokenRequest)]\<rparr>))
     \<and> (\<forall>v. json_scan E body = Inr v \<longrightarrow>
            ((\<exists>err. fst (fetchTokenAndRetry E req tokenRequest w) =
                Returns (Inl (Errorf ''Error parsing OAuth token response: %s'' [OErr err]))) \<longleftrightarrow>
             \<not> (case v of
                  JNull \<Rightarrow> True
                | JObject kvs \<Rightarrow>
                    list_all (\<lambda>(k, x). fieldMatch k \<longrightarrow>
                       (case x of JNull \<Rightarrow> True | JString s \<Rightarrow> True | _ \<Rightarrow> False)) kvs
                | _ \<Rightarrow> False)))
     \<and> (\<forall>v token. json_scan E body = Inr v \<and> decodeValue v \<lparr>Token = []\<rparr> = (None, token) \<longrightarrow>
            sent (snd (fetchTokenAndRetry E req tokenRequest w)) =
              sent w @ [(Transport w, tokenRequest),
                        (Transport w, req\<lparr>Request.Header :=
                           Header_Set (Request.Header req) ''Authorization''
                             (''Bearer '' @ Token token)\<rparr>)]
            \<and> Header_Set (Request.Header req) ''Authorization'' (''Bearer '' @ Token token)
                  ''Authorization'' = Some [''Bearer '' @ Token token])
     \<and> (\<forall>kvs. list_all (\<lambda>(k, x). \<not> fieldMatch k) kvs \<longrightarrow>
            decodeValue (JObject kvs) \<lparr>Token = []\<rparr> = (None, \<lparr>Token = []\<rparr>))
     \<and> (\<forall>s. decodeValue (JObject [(''token'', JString s)]) \<lparr>Token = []\<rparr> = (None, \<lparr>Token = s\<rparr>))"
proof -
  have A: "fetchTokenAndRetry E req tokenRequest w =
              (Returns (Inl (Errorf ''Error parsing OAuth token response: %s'' [OErr (LibError msg)])),
               w\<lparr>sent := sent w @ [(Transport w, tokenRequest)]\<rparr>)"
    if "json_scan E body = Inl msg" for msg
    using fetch_parse_error [OF assms, where err = "LibError msg" and token = "\<lparr>Token = []\<rparr>" and req = req] that
    by (simp add: Unmarshal_def)
  have acc: "(fst (decodeValue v \<lparr>Token = []\<rparr>) = None) =
             (case v of
                  JNull \<Rightarrow> True
                | JObject kvs \<Rightarrow>
                    list_all (\<lambda>(k, x). fieldMatch k \<longrightarrow>
                       (case x of JNull \<Rightarrow> True | JString s \<Rightarrow> True | _ \<Rightarrow> False)) kvs
                | _ \<Rightarrow> False)" for v
    by (cases v) (simp_all add: decodeValue_def decodeObject_accepts)
  have B: "(\<exists>err. fst (fetchTokenAndRetry E req tokenRequest w) =
                Returns (Inl (Errorf ''Error parsing OAuth token response: %s'' [OErr err]))) =
           (fst (decodeValue v \<lparr>Token = []\<rparr>) \<noteq> None)"
    if s: "json_scan E body = Inr v" for v
  proof (cases "decodeValue v \<lparr>Token = []\<rparr>")
    case (Pair e token)
    show ?thesis
    proof (cases e)
      case None
      then have u: "Unmarshal E body \<lparr>Token = []\<rparr> = (None, token)"
        using s Pair by (simp add: Unmarshal_def)
      show ?thesis using fetch_ok(3) [OF assms u, where req = req] Pair None by simp
    next
      case (Some err)
      then have u: "Unmarshal E body \<lparr>Token = []\<rparr> = (Some err, token)"
        using s Pair by (simp add: Unmarshal_def)
      show ?thesis using fetch_parse_error [OF assms u, where req = req] Pair Some by simp
    qed
  qed
  have C: "sent (snd (fetchTokenAndRetry E req tokenRequest w)) =
              sent w @ [(Transport w, tokenRequest),
                        (Transport w, req\<lparr>Request.Header :=
                           Header_Set (Request.Header req) ''Authorization''
                             (''Bearer '' @ Token token)\<rparr>)]"
    if "json_scan E body = Inr v" "decodeValue v \<lparr>Token = []\<rparr> = (None, token)" for v token
    using fetch_ok(1) [OF assms, where token = token and req = req] that by (simp add: Unmarshal_def)
  have D: "decodeValue (JObject kvs) \<lparr>Token = []\<rparr> = (None, \<lparr>Token = []\<rparr>)"
    if "list_all (\<lambda>(k, x). \<not> fieldMatch k) kvs" for kvs
    using decodeObject_no_member [OF that] by (simp add: decodeValue_def)
  have F: "decodeValue (JObject [(''token'', JString s)]) \<lparr>Token = []\<rparr> = (None, \<lparr>Token = s\<rparr>)" for s
    by (simp add: decodeValue_def fieldMatch_token)
  show ?thesis
    using A B acc C D F Header_Set_Authorization by simp
qed

text \<open>
  The claim as stated makes a missing \<open>token\<close> field a parse error. With the body
  \<open>{}\<close> the run goes on: the manifest request is sent again with
  \<open>Authorization: Bearer\<close> and an empty token (in place of the basic credentials),
  and the digest of the answer is returned.
\<close>

theorem token_response_decoding_counterexample:
  "fst (getImageDigest
          (scripted [Inr challenge, Inr (answer 200 ''200 OK'' [] ''{}''),
                     Inr (answer 200 ''200 OK'' [(''Docker-Content-Digest'', ''sha256:0123'')] [])]
             scan_example id)
          ''registry.example'' ''foo/bar'' ''v1'' ''user'' ''pw'' False False world0) =
     Returns (Inr ''sha256:0123'')
   \<and> map (\<lambda>(t, q). (URL q, Request.Header q ''Authorization''))
       (sent (snd (getImageDigest
          (scripted [Inr challenge, Inr (answer 200 ''200 OK'' [] ''{}''),
                     Inr (answer 200 ''200 OK'' [(''Docker-Content-Digest'', ''sha256:0123'')] [])]
             scan_example id)
          ''registry.example'' ''foo/bar'' ''v1'' ''user'' ''pw'' False False world0))) =
     [(''https://registry.example/v2/foo/bar/manifests/v1'', Some [''Basic dXNlcjpwdw=='']),
      (''https://auth.example/token?scope=repository%3Afoo%2Fbar%3Apull&service=registry.example'',
       Some [''Basic dXNlcjpwdw=='']),
      (''https://registry.example/v2/foo/bar/manifests/v1'', Some [''Bearer ''])]"
  by code_simp

text \<open>A token \<open>abc\<close> replaces the basic credentials of the manifest request.\<close>

theorem token_response_decoding_witness:
  "map (\<lambda>(t, q). (URL q, Request.Header q ''Authorization''))
     (sent (snd (fetchTokenAndRetry
        (scripted [Inr (answer 200 ''200 OK'' []
                      (''{'' @ [CHR 0x22] @ ''token'' @ [CHR 0x22] @ '':'' @ [CHR 0x22] @ ''abc'' @ [CHR 0x22] @ ''}'')),
                   Inr (answer 200 ''200 OK'' [(''Docker-Content-Digest'', ''sha256:0123'')] [])]
           scan_example id)
        \<lparr>Method = ''GET'', URL = ''https://registry.example/v2/foo/bar/manifests/v1'',
           Header = [''Authorization'' \<mapsto> [''Basic dXNlcjpwdw=='']]\<rparr>
        \<lparr>Method = ''GET'', URL = ''https://auth.example/token'', Header = Map.empty\<rparr>
        world0))) =
   [(''https://auth.example/token'', None),
    (''https://registry.example/v2/foo/bar/manifests/v1'', Some [''Bearer abc''])]"
proof -
  let ?body = "''{'' @ [CHR 0x22] @ ''token'' @ [CHR 0x22] @ '':'' @ [CHR 0x22] @ ''abc'' @ [CHR 0x22] @ ''}''"
  let ?E = "scripted [Inr (answer 200 ''200 OK'' [] ?body),
                   Inr (answer 200 ''200 OK'' [(''Docker-Content-Digest'', ''sha256:0123'')] [])]
           scan_example id"
  let ?req = "\<lparr>Method = ''GET'', URL = ''https://registry.example/v2/foo/bar/manifests/v1'',
           Header = [''Authorization'' \<mapsto> [''Basic dXNlcjpwdw=='']]\<rparr>"
  let ?treq = "\<lparr>Method = ''GET'', URL = ''https://auth.example/token'', Header = Map.empty\<rparr>"
  have h1: "RoundTrip ?E (sent world0) (Transport world0) ?treq = Inr (answer 200 ''200 OK'' [] ?body)"
    by (simp add: scripted_def world0_def)
  have h2: "StatusCode (answer 200 ''200 OK'' [] ?body) = 200"
    by (simp add: answer_def)
  have h3: "Body (answer 200 ''200 OK'' [] ?body) = Inr ?body"
    by (simp add: answer_def)
  have s: "json_scan ?E ?body = Inr (JObject [(''token'', JString ''abc'')])"
    by (simp add: scripted_def scan_example_def)
  have d: "decodeValue (JObject [(''token'', JString ''abc'')]) \<lparr>Token = []\<rparr> = (None, \<lparr>Token = ''abc''\<rparr>)"
    using token_response_decoding [OF h1 h2 h3] by blast
  have "sent (snd (fetchTokenAndRetry ?E ?req ?treq world0)) =
          sent world0 @ [(Transport world0, ?treq),
             (Transport world0, ?req\<lparr>Request.Header :=
                Header_Set (Request.Header ?req) ''Authorization'' (''Bearer '' @ Token \<lparr>Token = ''abc''\<rparr>)\<rparr>)]"
    using token_response_decoding [OF h1 h2 h3, where req = ?req] s d by blast
  then show ?thesis
    by (simp add: world0_def Header_Set_def canonical_Authorization)
qed

subsection \<open>The status code decides\<close>

lemma bearerHandshake_parsed:
  assumes "parseAuthHeader (Header_Get (Response.Header resp) ''www-authenticate'') = Returns auth"
      and "newTokenRequest E auth username password = Inr tokenRequest"
  shows "bearerHandshake E req username password resp w = fetchTokenAndRetry E req tokenRequest w"
  using assms by (simp add: bearerHandshake_def)

lemma getImageDigest_response:
  assumes "manifestRequest E registry img tag username password fallback = Inr req"
      and "RoundTrip E (sent w0) (Some insecureSkipVerify) req = Inr resp"
  shows "getImageDigest E registry img tag username password insecureSkipVerify fallback w0 =
     (if StatusCode resp = 200 then
        (Returns (fst (getDigestFromResponse E resp)),
         w0\<lparr>Transport := Some insecureSkipVerify,
            sent := sent w0 @ [(Some insecureSkipVerify, req)]\<rparr>)
      else if StatusCode resp = 401 then
        (if HasPrefix (Header_Get (Response.Header resp) ''www-authenticate'') ''Bearer''
         then bearerHandshake E req username password resp
                (w0\<lparr>Transport := Some insecureSkipVerify,
                    sent := sent w0 @ [(Some insecureSkipVerify, req)]\<rparr>)
         else (Returns (Inl (Errorf (''Bad credentials: '' @ Status resp) [])),
               w0\<lparr>Transport := Some insecureSkipVerify,
                  sent := sent w0 @ [(Some insecureSkipVerify, req)]\<rparr>))
      else
        (Returns (Inl (Errorf (''Got bad response from registry: '' @ Status resp) [])),
         w0\<lparr>Transport := Some insecureSkipVerify,
            sent := sent w0 @ [(Some insecureSkipVerify, req)]\<rparr>))"
  using assms by (simp add: getImageDigest_def Do_def Let_def)

text \<open>
  Claim C1, as amended. Let the manifest request \<open>req\<close> be answered by \<open>resp\<close>.
  \<^item> Status 200: the result is that of \<open>getDigestFromResponse\<close> on \<open>resp\<close>, and
    \<open>req\<close> is the only request sent (no handshake).
  \<^item> Status 401 with a \<^verbatim>\<open>WWW-Authenticate\<close> header that does not start with
    \<open>Bearer\<close> (or with none): the error \<open>Bad credentials:\<close> with the status line,
    and \<open>req\<close> is the only request sent (no token fetch).
  \<^item> Any other status but 401: the error \<open>Got bad response from registry:\<close> with
    the status line, and \<open>req\<close> is the only request sent.
  \<^item> Status 401 with a \<open>Bearer\<close> challenge that parses and gives a token request:
    exactly one token request is sent. The manifest request is sent once more, with
    the token, exactly when the token endpoint answers 200 with a body that reads and
    that \<^verbatim>\<open>json.Unmarshal\<close> accepts; in every other case no request follows the
    token request and the call returns an error.
  \<^item> When the token request cannot be built (the URL does not parse), that error is
    returned and no token request is sent.
\<close>

theorem getImageDigest_dispatch:
  assumes "manifestRequest E registry img tag username password fallback = Inr req"
      and "RoundTrip E (sent w0) (Some insecureSkipVerify) req = Inr resp"
  shows
    "(StatusCode resp = 200 \<longrightarrow>
        getImageDigest E registry img tag username password insecureSkipVerify fallback w0 =
          (Returns (fst (getDigestFromResponse E resp)),
           w0\<lparr>Transport := Some insecureSkipVerify,
              sent := sent w0 @ [(Some insecureSkipVerify, req)]\<rparr>))
   \<and> (StatusCode resp = 401 \<and>
        \<not> HasPrefix (Header_Get (Response.Header resp) ''www-authenticate'') ''Bearer'' \<longrightarrow>
        getImageDigest E registry img tag username password insecureSkipVerify fallback w0 =
          (Returns (Inl (Errorf (''Bad credentials: '' @ Status resp) [])),
           w0\<lparr>Transport := Some insecureSkipVerify,
              sent := sent w0 @ [(Some insecureSkipVerify, req)]\<rparr>))
   \<and> (StatusCode resp \<noteq> 200 \<and> StatusCode resp \<noteq> 401 \<longrightarrow>
        getImageDigest E registry img tag username password insecureSkipVerify fallback w0 =
          (Returns (Inl (Errorf (''Got bad response from registry: '' @ Status resp) [])),
           w0\<lparr>Transport := Some insecureSkipVerify,
              sent := sent w0 @ [(Some insecureSkipVerify, req)]\<rparr>))
   \<and> (\<forall>auth tokenRequest.
        StatusCode resp = 401 \<and>
        HasPrefix (Header_Get (Response.Header resp) ''www-authenticate'') ''Bearer'' \<and>
        parseAuthHeader (Header_Get (Response.Header resp) ''www-authenticate'') = Returns auth \<and>
        newTokenRequest E auth username password = Inr tokenRequest \<longrightarrow>
        (if \<exists>tokenResponse body token.
              RoundTrip E (sent w0 @ [(Some insecureSkipVerify, req)]) (Some insecureSkipVerify)
                tokenRequest = Inr tokenResponse \<and>
              StatusCode tokenResponse = 200 \<and> Body tokenResponse = Inr body \<and>
              Unmarshal E body \<lparr>Token = []\<rparr> = (None, token)
         then \<exists>token.
              sent (snd (getImageDigest E registry img tag username password insecureSkipVerify
                           fallback w0)) =
                sent w0 @ [(Some insecureSkipVerify, req), (Some insecureSkipVerify, tokenRequest),
                           (Some insecureSkipVerify,
                            req\<lparr>Request.Header := Header_Set (Request.Header req) ''Authorization''
                                  (''Bearer '' @ token)\<rparr>)]
         else sent (snd (getImageDigest E registry img tag username password insecureSkipVerify
                           fallback w0)) =
                sent w0 @ [(Some insecureSkipVerify, req), (Some insecureSkipVerify, tokenRequest)]
              \<and> (\<exists>err. fst (getImageDigest E registry img tag username password
                                insecureSkipVerify fallback w0) = Returns (Inl err))))
   \<and> (\<forall>auth err.
        StatusCode resp = 401 \<and>
        HasPrefix (Header_Get (Response.Header resp) ''www-authenticate'') ''Bearer'' \<and>
        parseAuthHeader (Header_Get (Response.Header resp) ''www-authenticate'') = Returns auth \<and>
        newTokenRequest E auth username password = Inl err \<longrightarrow>
        getImageDigest E registry img tag username password insecureSkipVerify fallback w0 =
          (Returns (Inl err),
           w0\<lparr>Transport := Some insecureSkipVerify,
              sent := sent w0 @ [(Some insecureSkipVerify, req)]\<rparr>))"
proof -
  let ?w1 = "w0\<lparr>Transport := Some insecureSkipVerify,
                sent := sent w0 @ [(Some insecureSkipVerify, req)]\<rparr>"
  let ?G = "getImageDigest E registry img tag username password insecureSkipVerify fallback w0"
  note R = getImageDigest_response [OF assms]
  have handshake: "?G = fetchTokenAndRetry E req tokenRequest ?w1"
    if "StatusCode resp = 401"
       "HasPrefix (Header_Get (Response.Header resp) ''www-authenticate'') ''Bearer''"
       "parseAuthHeader (Header_Get (Response.Header resp) ''www-authenticate'') = Returns auth"
       "newTokenRequest E auth username password = Inr tokenRequest" for auth tokenRequest
    using R that bearerHandshake_parsed [OF that(3) that(4)] by simp
  have ok: "\<exists>token. sent (snd ?G) =
                sent w0 @ [(Some insecureSkipVerify, req), (Some insecureSkipVerify, tokenRequest),
                           (Some insecureSkipVerify,
                            req\<lparr>Request.Header := Header_Set (Request.Header req) ''Authorization''
                                  (''Bearer '' @ token)\<rparr>)]"
    if h: "StatusCode resp = 401"
       "HasPrefix (Header_Get (Response.Header resp) ''www-authenticate'') ''Bearer''"
       "parseAuthHeader (Header_Get (Response.Header resp) ''www-authenticate'') = Returns auth"
       "newTokenRequest E auth username password = Inr tokenRequest"
     and t: "RoundTrip E (sent w0 @ [(Some insecureSkipVerify, req)]) (Some insecureSkipVerify)
                tokenRequest = Inr tokenResponse"
         "StatusCode tokenResponse = 200" "Body tokenResponse = Inr body"
         "Unmarshal E body \<lparr>Token = []\<rparr> = (None, token)"
    for auth tokenRequest tokenResponse body token
  proof -
    have rt: "RoundTrip E (sent ?w1) (Transport ?w1) tokenRequest = Inr tokenResponse"
      using t(1) by simp
    show ?thesis
      using fetch_ok(1) [OF rt t(2) t(3) t(4), where req = req] handshake [OF h] by auto
  qed
  have fail: "sent (snd ?G) =
                sent w0 @ [(Some insecureSkipVerify, req), (Some insecureSkipVerify, tokenRequest)]
              \<and> (\<exists>err. fst ?G = Returns (Inl err))"
    if h: "StatusCode resp = 401"
       "HasPrefix (Header_Get (Response.Header resp) ''www-authenticate'') ''Bearer''"
       "parseAuthHeader (Header_Get (Response.Header resp) ''www-authenticate'') = Returns auth"
       "newTokenRequest E auth username password = Inr tokenRequest"
     and n: "\<not> (\<exists>tokenResponse body token.
              RoundTrip E (sent w0 @ [(Some insecureSkipVerify, req)]) (Some insecureSkipVerify)
                tokenRequest = Inr tokenResponse \<and>
              StatusCode tokenResponse = 200 \<and> Body tokenResponse = Inr body \<and>
              Unmarshal E body \<lparr>Token = []\<rparr> = (None, token))"
    for auth tokenRequest
  proof -
    have n': "\<not> (\<exists>tokenResponse body token.
              RoundTrip E (sent ?w1) (Transport ?w1) tokenRequest = Inr tokenResponse \<and>
              StatusCode tokenResponse = 200 \<and> Body tokenResponse = Inr body \<and>
              Unmarshal E body \<lparr>Token = []\<rparr> = (None, token))"
      using n by simp
    show ?thesis
      using fetch_fail [OF n', where req = req] handshake [OF h] by simp
  qed
  have build: "?G = (Returns (Inl err), ?w1)"
    if "StatusCode resp = 401"
       "HasPrefix (Header_Get (Response.Header resp) ''www-authenticate'') ''Bearer''"
       "parseAuthHeader (Header_Get (Response.Header resp) ''www-authenticate'') = Returns auth"
       "newTokenRequest E auth username password = Inl err" for auth err
    using R that by (simp add: bearerHandshake_def)
  have c1: "StatusCode resp = 200 \<longrightarrow> ?G = (Returns (fst (getDigestFromResponse E resp)), ?w1)"
    using R by simp
  have c2: "StatusCode resp = 401 \<and>
        \<not> HasPrefix (Header_Get (Response.Header resp) ''www-authenticate'') ''Bearer'' \<longrightarrow>
        ?G = (Returns (Inl (Errorf (''Bad credentials: '' @ Status resp) [])), ?w1)"
    using R by simp
  have c3: "StatusCode resp \<noteq> 200 \<and> StatusCode resp \<noteq> 401 \<longrightarrow>
        ?G = (Returns (Inl (Errorf (''Got bad response from registry: '' @ Status resp) [])), ?w1)"
    using R by simp
  show ?thesis
    apply (intro conjI allI impI)
    subgoal using c1 by simp
    subgoal using c2 by simp
    subgoal using c3 by simp
    subgoal for auth tokenRequest
      using ok [of auth tokenRequest] fail [of auth tokenRequest]
      by (auto split: if_splits)
    subgoal for auth err using build [of auth err] by simp
    done
qed

text \<open>
  The claim as stated has a retried manifest request after every \<open>Bearer\<close>
  challenge. When the token endpoint answers 403 the call returns after the token
  request: two requests are sent, none of them a retry.
\<close>

theorem getImageDigest_dispatch_counterexample:
  "fst (getImageDigest
          (scripted [Inr challenge, Inr (answer 403 ''403 Forbidden'' [] [])] scan_example id)
          ''registry.example'' ''foo/bar'' ''v1'' [] [] False False world0) =
     Returns (Inl (Errorf ''Got bad response from registry: 403 Forbidden'' []))
   \<and> map (\<lambda>(t, q). URL q)
       (sent (snd (getImageDigest
          (scripted [Inr challenge, Inr (answer 403 ''403 Forbidden'' [] [])] scan_example id)
          ''registry.example'' ''foo/bar'' ''v1'' [] [] False False world0))) =
     [''https://registry.example/v2/foo/bar/manifests/v1'',
      ''https://auth.example/token?scope=repository%3Afoo%2Fbar%3Apull&service=registry.example'']"
  by code_simp

text \<open>A full handshake: the challenge, the token, the retried request, three requests.\<close>

theorem getImageDigest_dispatch_witness:
  "length (sent (snd (getImageDigest
      (scripted [Inr challenge,
                 Inr (answer 200 ''200 OK'' []
                   (''{'' @ [CHR 0x22] @ ''token'' @ [CHR 0x22] @ '':'' @ [CHR 0x22] @ ''abc'' @ [CHR 0x22] @ ''}'')),
                 Inr (answer 200 ''200 OK'' [(''Docker-Content-Digest'', ''sha256:0123'')] [])]
         scan_example id)
      ''registry.example'' ''foo/bar'' ''v1'' [] [] False False world0))) = 3
   \<and> fst (getImageDigest
      (scripted [Inr challenge,
                 Inr (answer 200 ''200 OK'' []
                   (''{'' @ [CHR 0x22] @ ''token'' @ [CHR 0x22] @ '':'' @ [CHR 0x22] @ ''abc'' @ [CHR 0x22] @ ''}'')),
                 Inr (answer 200 ''200 OK'' [(''Docker-Content-Digest'', ''sha256:0123'')] [])]
         scan_example id)
      ''registry.example'' ''foo/bar'' ''v1'' [] [] False False world0) = Returns (Inr ''sha256:0123'')"
proof -
  let ?body = "''{'' @ [CHR 0x22] @ ''token'' @ [CHR 0x22] @ '':'' @ [CHR 0x22] @ ''abc'' @ [CHR 0x22] @ ''}''"
  let ?E = "scripted [Inr challenge, Inr (answer 200 ''200 OK'' [] ?body),
                 Inr (answer 200 ''200 OK'' [(''Docker-Content-Digest'', ''sha256:0123'')] [])]
         scan_example id"
  let ?G = "getImageDigest ?E ''registry.example'' ''foo/bar'' ''v1'' [] [] False False world0"
  obtain req where r: "manifestRequest ?E ''registry.example'' ''foo/bar'' ''v1'' [] [] False = Inr req"
    by (simp add: manifestRequest_def NewRequest_def scripted_def Let_def)
  have h: "RoundTrip ?E (sent world0) (Some False) req = Inr challenge"
    by (simp add: scripted_def world0_def)
  have s: "StatusCode challenge = 401"
    by (simp add: challenge_def answer_def)
  have p: "HasPrefix (Header_Get (Response.Header challenge) ''www-authenticate'') ''Bearer''"
    by code_simp
  have "case parseAuthHeader (Header_Get (Response.Header challenge) ''www-authenticate'') of
          Panics \<Rightarrow> False | Returns auth \<Rightarrow> True"
    by code_simp
  then obtain auth where a:
    "parseAuthHeader (Header_Get (Response.Header challenge) ''www-authenticate'') = Returns auth"
    by (cases "parseAuthHeader (Header_Get (Response.Header challenge) ''www-authenticate'')") auto
  obtain tokenRequest where t: "newTokenRequest ?E auth [] [] = Inr tokenRequest"
    by (simp add: newTokenRequest_def NewRequest_def scripted_def Let_def)
  have x: "\<exists>tokenResponse body token.
              RoundTrip ?E (sent world0 @ [(Some False, req)]) (Some False) tokenRequest =
                Inr tokenResponse \<and>
              StatusCode tokenResponse = 200 \<and> Body tokenResponse = Inr body \<and>
              Unmarshal ?E body \<lparr>Token = []\<rparr> = (None, token)"
    by (simp add: scripted_def world0_def answer_def Unmarshal_def scan_example_def
          decodeValue_def fieldMatch_token)
  have "\<exists>token. sent (snd ?G) =
          sent world0 @ [(Some False, req), (Some False, tokenRequest),
             (Some False, req\<lparr>Request.Header := Header_Set (Request.Header req) ''Authorization''
                                  (''Bearer '' @ token)\<rparr>)]"
    using getImageDigest_dispatch [OF r h] s p a t x by (auto split: if_splits)
  then have 1: "length (sent (snd ?G)) = 3"
    by (auto simp: world0_def)
  have 2: "fst ?G = Returns (Inr ''sha256:0123'')"
    by code_simp
  show ?thesis using 1 2 by simp
qed

subsection \<open>The transport of the shared client\<close>

lemma fetch_frame:
  "Transport (snd (fetchTokenAndRetry E req tokenRequest w)) = Transport w \<and>
   (\<exists>new. sent (snd (fetchTokenAndRetry E req tokenRequest w)) = sent w @ new \<and>
          list_all (\<lambda>(t, r). t = Transport w) new)"
proof (cases "\<exists>tokenResponse body token.
              RoundTrip E (sent w) (Transport w) tokenRequest = Inr tokenResponse \<and>
              StatusCode tokenResponse = 200 \<and> Body tokenResponse = Inr body \<and>
              Unmarshal E body \<lparr>Token = []\<rparr> = (None, token)")
  case True
  then obtain tokenResponse body token where
    h: "RoundTrip E (sent w) (Transport w) tokenRequest = Inr tokenResponse"
       "StatusCode tokenResponse = 200" "Body tokenResponse = Inr body"
       "Unmarshal E body \<lparr>Token = []\<rparr> = (None, token)"
    by blast
  show ?thesis
    using fetch_ok(1) [OF h, where req = req] fetch_ok(2) [OF h, where req = req] by simp
next
  case False
  show ?thesis using fetch_fail(1) [OF False, where req = req] by simp
qed

lemma handshake_frame:
  "Transport (snd (bearerHandshake E req username password resp w)) = Transport w \<and>
   (\<exists>new. sent (snd (bearerHandshake E req username password resp w)) = sent w @ new \<and>
          list_all (\<lambda>(t, r). t = Transport w) new)"
proof (cases "parseAuthHeader (Header_Get (Response.Header resp) ''www-authenticate'')")
  case Panics
  then show ?thesis by (simp add: bearerHandshake_def)
next
  case (Returns auth)
  show ?thesis
  proof (cases "newTokenRequest E auth username password")
    case (Inl err)
    then show ?thesis using Returns by (simp add: bearerHandshake_def)
  next
    case (Inr tokenRequest)
    then show ?thesis
      using Returns fetch_frame [of E req tokenRequest w] by (simp add: bearerHandshake_def)
  qed
qed

lemma getImageDigest_no_request:
  assumes "manifestRequest E registry img tag username password fallback = Inl err"
  shows "getImageDigest E registry img tag username password insecureSkipVerify fallback w0 =
           (Returns (Inl err), w0\<lparr>Transport := Some insecureSkipVerify\<rparr>)"
  using assms by (simp add: getImageDigest_def)

lemma getImageDigest_sent:
  assumes "manifestRequest E registry img tag username password fallback = Inr req"
  shows "Transport (snd (getImageDigest E registry img tag username password insecureSkipVerify
                           fallback w0)) = Some insecureSkipVerify \<and>
         (\<exists>rest. sent (snd (getImageDigest E registry img tag username password insecureSkipVerify
                               fallback w0)) =
                    sent w0 @ (Some insecureSkipVerify, req) # rest \<and>
                 list_all (\<lambda>(t, r). t = Some insecureSkipVerify) rest)"
proof (cases "RoundTrip E (sent w0) (Some insecureSkipVerify) req")
  case (Inl msg)
  then show ?thesis using assms by (simp add: getImageDigest_def Do_def)
next
  case (Inr resp)
  let ?w1 = "w0\<lparr>Transport := Some insecureSkipVerify,
                sent := sent w0 @ [(Some insecureSkipVerify, req)]\<rparr>"
  show ?thesis
    using getImageDigest_response [OF assms Inr]
          handshake_frame [of E req username password resp ?w1]
    by auto
qed

text \<open>
  Claim C9, as amended. In a sequential run every request a call of
  \<open>getImageDigest\<close> sends goes over a transport that carries the flag of that very
  call, and the call behaves the same whatever transport an earlier call left on the
  shared client. It does so by assigning a new transport to the shared
  \<^verbatim>\<open>http.DefaultClient\<close> on entry: when the call is over the shared client holds
  the transport with this call's flag.
\<close>

theorem getImageDigest_transport:
  "Transport (snd (getImageDigest E registry img tag username password insecureSkipVerify
                     fallback w0)) = Some insecureSkipVerify
   \<and> (\<exists>new. sent (snd (getImageDigest E registry img tag username password insecureSkipVerify
                          fallback w0)) = sent w0 @ new \<and>
             list_all (\<lambda>(t, r). t = Some insecureSkipVerify) new)
   \<and> getImageDigest E registry img tag username password insecureSkipVerify fallback
        (w0\<lparr>Transport := t\<rparr>) =
      getImageDigest E registry img tag username password insecureSkipVerify fallback w0"
proof -
  have a: "Transport (snd (getImageDigest E registry img tag username password insecureSkipVerify
                     fallback w0)) = Some insecureSkipVerify
       \<and> (\<exists>new. sent (snd (getImageDigest E registry img tag username password insecureSkipVerify
                          fallback w0)) = sent w0 @ new \<and>
             list_all (\<lambda>(t, r). t = Some insecureSkipVerify) new)"
  proof (cases "manifestRequest E registry img tag username password fallback")
    case (Inl err)
    show ?thesis using getImageDigest_no_request [OF Inl] by simp
  next
    case (Inr req)
    show ?thesis using getImageDigest_sent [OF Inr, of insecureSkipVerify w0] by auto
  qed
  have b: "getImageDigest E registry img tag username password insecureSkipVerify fallback
        (w0\<lparr>Transport := t\<rparr>) =
      getImageDigest E registry img tag username password insecureSkipVerify fallback w0"
    by (simp add: getImageDigest_def)
  show ?thesis using a b by simp
qed

text \<open>
  The claim as stated has no shared state changed. Let a lookup that verifies
  certificates have assigned its transport (line 97) and be about to send its
  request, and let a lookup with the flag set run in between. The transport of the
  shared client is then the one that skips verification, and the request of the first
  lookup, sent through the shared client, goes over it.
\<close>

theorem getImageDigest_transport_counterexample:
  "Transport (world0\<lparr>Transport := Some False\<rparr>) = Some False
   \<and> Transport (snd (getImageDigest
        (scripted [Inr (answer 200 ''200 OK'' [(''Docker-Content-Digest'', ''sha256:0123'')] []),
                   Inr (answer 200 ''200 OK'' [] [])] scan_example id)
        ''registry.example'' ''foo/bar'' ''v1'' [] [] True False
        (world0\<lparr>Transport := Some False\<rparr>))) = Some True
   \<and> map (\<lambda>(t, q). (t, URL q)) (sent (snd (Do
        (scripted [Inr (answer 200 ''200 OK'' [(''Docker-Content-Digest'', ''sha256:0123'')] []),
                   Inr (answer 200 ''200 OK'' [] [])] scan_example id)
        \<lparr>Method = ''GET'', URL = ''https://other.example/v2/a/b/manifests/c'',
           Header = Map.empty\<rparr>
        (snd (getImageDigest
          (scripted [Inr (answer 200 ''200 OK'' [(''Docker-Content-Digest'', ''sha256:0123'')] []),
                     Inr (answer 200 ''200 OK'' [] [])] scan_example id)
          ''registry.example'' ''foo/bar'' ''v1'' [] [] True False
          (world0\<lparr>Transport := Some False\<rparr>)))))) =
     [(Some True, ''https://registry.example/v2/foo/bar/manifests/v1''),
      (Some True, ''https://other.example/v2/a/b/manifests/c'')]"
  by code_simp

subsection \<open>The second attempt\<close>

text \<open>
  Claim C4. Let the first call of \<open>getImageDigest\<close> (modern media types) return an
  error, of whatever kind, leaving the world \<open>w1\<close>. Then the read always makes the
  second call, with the same reference, credentials and flag and the legacy media
  type, starting from \<open>w1\<close>, before it reports anything. When the second call
  returns an error, the diagnostic carries that error, the one of the second call;
  when it returns a digest, the read succeeds with it. The second call builds its
  manifest request anew from the arguments alone: it is the first request sent after
  \<open>w1\<close>, its \<open>Accept\<close> header is the legacy media type, and its \<open>Authorization\<close>
  header is what the credentials give, not a token of the first attempt. (A panic of
  the first call is no returned error: it unwinds through the read.)
\<close>

theorem read_falls_back:
  assumes "pullOpts = normalizePullOpts (parseImageOptions E (name d))"
      and "(username, password) =
             (case Configs (normalizeRegistryAddress E (Registry pullOpts)) of
                Some auth \<Rightarrow> (Username auth, Password auth)
              | None \<Rightarrow> ([], []))"
      and "fst (getImageDigest E (Registry pullOpts) (Repository pullOpts) (Tag pullOpts)
                  username password (insecure_skip_verify d) False w) = Returns (Inl err1)"
      and "w1 = snd (getImageDigest E (Registry pullOpts) (Repository pullOpts) (Tag pullOpts)
                  username password (insecure_skip_verify d) False w)"
  shows
    "snd (snd (dataSourceDockerRegistryImageRead E Configs d w)) =
       snd (getImageDigest E (Registry pullOpts) (Repository pullOpts) (Tag pullOpts)
              username password (insecure_skip_verify d) True w1)
     \<and> (\<forall>err. fst (getImageDigest E (Registry pullOpts) (Repository pullOpts) (Tag pullOpts)
                      username password (insecure_skip_verify d) True w1) = Returns (Inl err) \<longrightarrow>
            fst (dataSourceDockerRegistryImageRead E Configs d w) =
              Returns (Diag_Errorf
                ''Got error when attempting to fetch image version %s:%s from registry: %s''
                [OStr (Repository pullOpts), OStr (Tag pullOpts), OErr err])
            \<and> fst (snd (dataSourceDockerRegistryImageRead E Configs d w)) = d)
     \<and> (\<forall>digest. fst (getImageDigest E (Registry pullOpts) (Repository pullOpts) (Tag pullOpts)
                      username password (insecure_skip_verify d) True w1) = Returns (Inr digest) \<longrightarrow>
            fst (dataSourceDockerRegistryImageRead E Configs d w) = Returns Diag_nil
            \<and> fst (snd (dataSourceDockerRegistryImageRead E Configs d w)) =
                d\<lparr>Id := digest, sha256_digest := digest\<rparr>)
     \<and> (\<forall>req2. manifestRequest E (Registry pullOpts) (Repository pullOpts) (Tag pullOpts)
                    username password True = Inr req2 \<longrightarrow>
            (\<exists>rest. sent (snd (snd (dataSourceDockerRegistryImageRead E Configs d w))) =
                      sent w1 @ (Some (insecure_skip_verify d), req2) # rest)
            \<and> Request.Header req2 ''Accept'' =
                Some [''application/vnd.docker.distribution.manifest.v1+prettyjws'']
            \<and> Request.Header req2 ''Authorization'' =
                (if username = [] then None
                 else if Registry pullOpts = ''ghcr.io''
                   then Some [''Bearer '' @ EncodeToString password]
                 else Some [''Basic '' @ EncodeToString (username @ '':'' @ password)]))"
proof -
  let ?G1 = "getImageDigest E (Registry pullOpts) (Repository pullOpts) (Tag pullOpts)
                  username password (insecure_skip_verify d) False w"
  let ?G2 = "getImageDigest E (Registry pullOpts) (Repository pullOpts) (Tag pullOpts)
                  username password (insecure_skip_verify d) True w1"
  let ?R = "dataSourceDockerRegistryImageRead E Configs d w"
  have g1: "?G1 = (Returns (Inl err1), w1)"
    using assms(3) assms(4) by (simp add: prod_eq_iff)
  have R: "?R =
     (case ?G2 of
        (Panics, w2) \<Rightarrow> (Panics, d, w2)
      | (Returns (Inr digest), w2) \<Rightarrow>
          (Returns Diag_nil, d\<lparr>Id := digest, sha256_digest := digest\<rparr>, w2)
      | (Returns (Inl err), w2) \<Rightarrow>
          (Returns (Diag_Errorf
             ''Got error when attempting to fetch image version %s:%s from registry: %s''
             [OStr (Repository pullOpts), OStr (Tag pullOpts), OErr err]), d, w2))"
    unfolding dataSourceDockerRegistryImageRead_def Let_def assms(1) [symmetric]
      assms(2) [symmetric]
    by (simp add: g1)
  have a: "snd (snd ?R) = snd ?G2"
    unfolding R by (simp split: prod.splits outcome.splits sum.splits)
  have b: "fst ?R = Returns (Diag_Errorf
                ''Got error when attempting to fetch image version %s:%s from registry: %s''
                [OStr (Repository pullOpts), OStr (Tag pullOpts), OErr err])
            \<and> fst (snd ?R) = d"
    if h: "fst ?G2 = Returns (Inl err)" for err
    unfolding R using h by (auto split: prod.splits)
  have c: "fst ?R = Returns Diag_nil \<and>
           fst (snd ?R) = d\<lparr>Id := digest, sha256_digest := digest\<rparr>"
    if h: "fst ?G2 = Returns (Inr digest)" for digest
    unfolding R using h by (auto split: prod.splits)
  have e: "(\<exists>rest. sent (snd (snd ?R)) = sent w1 @ (Some (insecure_skip_verify d), req2) # rest)
            \<and> Request.Header req2 ''Accept'' =
                Some [''application/vnd.docker.distribution.manifest.v1+prettyjws'']
            \<and> Request.Header req2 ''Authorization'' =
                (if username = [] then None
                 else if Registry pullOpts = ''ghcr.io''
                   then Some [''Bearer '' @ EncodeToString password]
                 else Some [''Basic '' @ EncodeToString (username @ '':'' @ password)])"
    if m: "manifestRequest E (Registry pullOpts) (Repository pullOpts) (Tag pullOpts)
                    username password True = Inr req2" for req2
  proof -
    have 1: "\<exists>rest. sent (snd (snd ?R)) = sent w1 @ (Some (insecure_skip_verify d), req2) # rest"
      using getImageDigest_sent [OF m, of "insecure_skip_verify d" w1] a by auto
    have 2: "Request.Header req2 ''Accept'' =
                Some [''application/vnd.docker.distribution.manifest.v1+prettyjws'']"
      using m
      by (auto simp: manifestRequest_def NewRequest_def Let_def Header_Set_def canonical_Accept
            split: sum.splits option.splits)
    show ?thesis using 1 2 manifestRequest_fields [OF m] by simp
  qed
  show ?thesis using a b c e by blast
qed

text \<open>
  The reference \<open>alpine\<close>: the first attempt is answered 404, the second 500; the
  diagnostic reports the 500.
\<close>

theorem read_falls_back_witness:
  "fst (dataSourceDockerRegistryImageRead
          (scripted [Inr (answer 404 ''404 Not Found'' [] []),
                     Inr (answer 500 ''500 Internal Server Error'' [] [])] scan_example id)
          Map.empty
          \<lparr>name = ''alpine'', insecure_skip_verify = False, Id = [], sha256_digest = []\<rparr>
          world0) =
     Returns (Diag_Errorf
       ''Got error when attempting to fetch image version %s:%s from registry: %s''
       [OStr ''library/alpine'', OStr ''latest'',
        OErr (Errorf ''Got bad response from registry: 500 Internal Server Error'' [])])
   \<and> map (\<lambda>(t, q). (URL q, Request.Header q ''Accept''))
       (sent (snd (snd (dataSourceDockerRegistryImageRead
          (scripted [Inr (answer 404 ''404 Not Found'' [] []),
                     Inr (answer 500 ''500 Internal Server Error'' [] [])] scan_example id)
          Map.empty
          \<lparr>name = ''alpine'', insecure_skip_verify = False, Id = [], sha256_digest = []\<rparr>
          world0)))) =
     [(''https://registry-1.docker.io/v2/library/alpine/manifests/latest'',
       Some [''application/vnd.docker.distribution.manifest.v2+json'',
             ''application/vnd.docker.distribution.manifest.list.v2+json'',
             ''application/vnd.oci.image.manifest.v1+json'',
             ''application/vnd.oci.image.index.v1+json'']),
      (''https://registry-1.docker.io/v2/library/alpine/manifests/latest'',
       Some [''application/vnd.docker.distribution.manifest.v1+prettyjws''])]"
proof -
  let ?E = "scripted [Inr (answer 404 ''404 Not Found'' [] []),
                     Inr (answer 500 ''500 Internal Server Error'' [] [])] scan_example id"
  let ?d = "\<lparr>name = ''alpine'', insecure_skip_verify = False, Id = [], sha256_digest = []\<rparr>"
  let ?p = "normalizePullOpts (parseImageOptions ?E (name ?d))"
  let ?G1 = "getImageDigest ?E (Registry ?p) (Repository ?p) (Tag ?p) [] []
               (insecure_skip_verify ?d) False world0"
  have c: "([], []) =
             (case Map.empty (normalizeRegistryAddress ?E (Registry ?p)) of
                Some auth \<Rightarrow> (Username auth, Password auth)
              | None \<Rightarrow> ([], []))"
    by simp
  have f: "fst ?G1 = Returns (Inl (Errorf ''Got bad response from registry: 404 Not Found'' []))"
    by code_simp
  have s: "fst (getImageDigest ?E (Registry ?p) (Repository ?p) (Tag ?p) [] []
               (insecure_skip_verify ?d) True (snd ?G1)) =
           Returns (Inl (Errorf ''Got bad response from registry: 500 Internal Server Error'' []))"
    by code_simp
  have p: "Repository ?p = ''library/alpine''" "Tag ?p = ''latest''"
    by code_simp+
  have 1: "fst (dataSourceDockerRegistryImageRead ?E Map.empty ?d world0) =
     Returns (Diag_Errorf
       ''Got error when attempting to fetch image version %s:%s from registry: %s''
       [OStr (Repository ?p), OStr (Tag ?p),
        OErr (Errorf ''Got bad response from registry: 500 Internal Server Error'' [])])"
    using read_falls_back [OF refl c f refl] s by blast
  have 2: "map (\<lambda>(t, q). (URL q, Request.Header q ''Accept''))
       (sent (snd (snd (dataSourceDockerRegistryImageRead ?E Map.empty ?d world0)))) =
     [(''https://registry-1.docker.io/v2/library/alpine/manifests/latest'',
       Some [''application/vnd.docker.distribution.manifest.v2+json'',
             ''application/vnd.docker.distribution.manifest.list.v2+json'',
             ''application/vnd.oci.image.manifest.v1+json'',
             ''application/vnd.oci.image.index.v1+json'']),
      (''https://registry-1.docker.io/v2/library/alpine/manifests/latest'',
       Some [''application/vnd.docker.distribution.manifest.v1+prettyjws''])]"
    by code_simp
  show ?thesis using 1 2 by (simp only: p)
qed

subsection \<open>parseAuthHeader panics on a malformed challenge\<close>

lemma parseAuthHeader_loop_returns:
  "(parseAuthHeader_loop parts opts \<noteq> Panics) = (\<forall>part \<in> set parts. CHR ''='' \<in> set part)"
  by (induction parts arbitrary: opts) (auto simp: SplitN2_def index_def Let_def)

text \<open>
  Claim C10. \<open>parseAuthHeader\<close> is partial. It returns a map exactly when the header
  has a space and every comma-separated parameter of the text after the first space
  has an \<open>=\<close>; on every other header an unchecked index (\<^verbatim>\<open>parts[1]\<close>,
  \<^verbatim>\<open>vals[1]\<close>) is out of range and the call panics, no error is returned. So it
  does for a header with no space (\<open>Bearer\<close>) and for a parameter with no \<open>=\<close>.
\<close>

theorem parseAuthHeader_partial:
  "((\<exists>opts. parseAuthHeader header = Returns opts) \<longleftrightarrow>
      CHR '' '' \<in> set header \<and>
      (\<forall>part \<in> set (Split (tl (dropWhile (\<lambda>c. c \<noteq> CHR '' '') header)) CHR '','').
         CHR ''='' \<in> set part))
   \<and> (parseAuthHeader header = Panics \<longleftrightarrow>
      \<not> (CHR '' '' \<in> set header \<and>
      (\<forall>part \<in> set (Split (tl (dropWhile (\<lambda>c. c \<noteq> CHR '' '') header)) CHR '','').
         CHR ''='' \<in> set part)))
   \<and> parseAuthHeader ''Bearer'' = Panics
   \<and> parseAuthHeader ''Bearer realm'' = Panics
   \<and> parseAuthHeader ''Bearer realm=a,service'' = Panics"
proof -
  have ex: "(\<exists>opts. r = Returns opts) = (r \<noteq> Panics)" for r :: "(string \<rightharpoonup> string) outcome"
    by (cases r) auto
  have a: "(parseAuthHeader header \<noteq> Panics) =
      (CHR '' '' \<in> set header \<and>
      (\<forall>part \<in> set (Split (tl (dropWhile (\<lambda>c. c \<noteq> CHR '' '') header)) CHR '','').
         CHR ''='' \<in> set part))"
    by (simp add: parseAuthHeader_def SplitN2_def index_def parseAuthHeader_loop_returns)
  have b: "parseAuthHeader ''Bearer'' = Panics"
    by (simp add: parseAuthHeader_def SplitN2_def index_def)
  have c: "parseAuthHeader ''Bearer realm'' = Panics"
    by (simp add: parseAuthHeader_def SplitN2_def index_def)
  have d: "parseAuthHeader ''Bearer realm=a,service'' = Panics"
    by (simp add: parseAuthHeader_def SplitN2_def index_def)
  have e: "(parseAuthHeader header = Panics) =
      (\<not> (CHR '' '' \<in> set header \<and>
      (\<forall>part \<in> set (Split (tl (dropWhile (\<lambda>c. c \<noteq> CHR '' '') header)) CHR '','').
         CHR ''='' \<in> set part)))"
    using a by blast
  show ?thesis unfolding ex using a b c d e by blast
qed

theorem parseAuthHeader_partial_witness:
  "\<exists>opts. parseAuthHeader ''Bearer realm=a,service=b'' = Returns opts"
  using parseAuthHeader_partial [of "''Bearer realm=a,service=b''"] by simp

end
